theory Spec2Isabelle
  imports Complex_Main "HOL-Library.Word"
begin

section \<open>The SWW loader of Crayfish (\<^verbatim>\<open>corelib/crayfish_sww.cpp\<close>)\<close>

text \<open>
  \<^verbatim>\<open>loadSWW\<close> opens a NetCDF container, checks its dimensions and variables, and builds
  a mesh with a bed-elevation dataset, a depth dataset and, when the container has the two
  momentum variables, a momentum dataset. The embedding follows the function block by
  block; the line numbers in the comments are those of the source file.
\<close>

subsection \<open>Single-precision arithmetic\<close>

text \<open>
  The loader computes on C \<^verbatim>\<open>float\<close> values. The embedding does not fix their
  semantics: the type of floats is a parameter \<open>'f\<close>, and the operations the loader applies
  are the fields of a record. Every theorem then holds for whatever these operations do
  (rounding, infinities and NaN included).
  \<^item> \<open>fzero\<close>: the value \<^verbatim>\<open>0\<close> of a zero-initialised \<^verbatim>\<open>float\<close>;
  \<^item> \<open>fadd\<close>, \<open>fsub\<close>, \<open>fmul\<close>, \<open>fsqrt\<close>: \<^verbatim>\<open>a + b\<close>, \<^verbatim>\<open>a - b\<close>, \<^verbatim>\<open>a * b\<close>, \<^verbatim>\<open>sqrt(a)\<close>;
  \<^item> \<open>fdiv_double a d\<close>: \<^verbatim>\<open>a / d\<close> for a \<^verbatim>\<open>double\<close> literal \<open>d\<close>, stored in a float field;
  \<^item> \<open>fgt_double a d\<close>: the comparison \<^verbatim>\<open>a > d\<close> against a \<^verbatim>\<open>double\<close> literal \<open>d\<close>.
  A literal is given by the real number its decimal text denotes.
\<close>

record 'f float_ops =
  fzero :: 'f
  fadd :: "'f \<Rightarrow> 'f \<Rightarrow> 'f"
  fsub :: "'f \<Rightarrow> 'f \<Rightarrow> 'f"
  fmul :: "'f \<Rightarrow> 'f \<Rightarrow> 'f"
  fsqrt :: "'f \<Rightarrow> 'f"
  fdiv_double :: "'f \<Rightarrow> real \<Rightarrow> 'f"
  fgt_double :: "'f \<Rightarrow> real \<Rightarrow> bool"

text \<open>Line 37: \<^verbatim>\<open>#define DEPTH_THRESHOLD 0.0001\<close> (in meters).\<close>

definition DEPTH_THRESHOLD :: real where
  "DEPTH_THRESHOLD = 1 / 10000"

text \<open>The largest \<^verbatim>\<open>int\<close>: the loop counters and the sizes of the Qt vectors are \<^verbatim>\<open>int\<close>.\<close>

definition INT_MAX :: nat where
  "INT_MAX = 2147483647"

subsection \<open>The container, as the NetCDF calls of the loader see it\<close>

text \<open>
  The NetCDF library is not part of the sources. A container is given by what each call
  the loader makes returns on it; \<open>None\<close> stands for a return code other than
  \<^verbatim>\<open>NC_NOERR\<close>.
  \<^item> \<open>nc_open\<close>: whether opening the file succeeds;
  \<^item> \<open>nc_inq_dimid\<close>, \<open>nc_inq_dimlen\<close>: the id of a named dimension, the length of a dimension;
  \<^item> \<open>nc_inq_varid\<close>: the id of a named variable;
  \<^item> \<open>nc_get_var_float\<close>, \<open>nc_get_var_int\<close>: all the values of a variable, in storage
    order; the integers are given by the 32 bits the call stores;
  \<^item> \<open>nc_get_att_float\<close>: the value of a global attribute;
  \<^item> \<open>nc_get_vars_float v start count\<close>: the values of the block of a two-dimensional
    variable that starts at \<open>start\<close> and has \<open>count\<close> entries along each dimension (the
    loader's stride is always \<^verbatim>\<open>{1,1}\<close>).
\<close>

record 'f container =
  nc_open :: bool
  nc_inq_dimid :: "string \<Rightarrow> nat option"
  nc_inq_dimlen :: "nat \<Rightarrow> nat option"
  nc_inq_varid :: "string \<Rightarrow> nat option"
  nc_get_var_float :: "nat \<Rightarrow> 'f list option"
  nc_get_var_int :: "nat \<Rightarrow> 32 word list option"
  nc_get_att_float :: "string \<Rightarrow> 'f option"
  nc_get_vars_float :: "nat \<Rightarrow> nat \<times> nat \<Rightarrow> nat \<times> nat \<Rightarrow> 'f list option"

text \<open>
  A read call stores the values it returns at the start of the destination buffer and
  leaves the rest of the buffer as it was. The call does not know the size of the buffer:
  more values than the buffer has slots overrun it, which is undefined behaviour (\<open>None\<close>).
\<close>

definition read_into :: "'a list \<Rightarrow> 'a list \<Rightarrow> 'a list option" where
  "read_into buf data =
     (if length buf < length data then None else Some (data @ drop (length data) buf))"

text \<open>
  A read whose return code the loader ignores (lines 169, 186, 231, 232): when the call
  fails the buffer keeps its contents and the loader goes on.
\<close>

definition unchecked_read :: "'a list option \<Rightarrow> 'a list \<Rightarrow> 'a list option" where
  "unchecked_read res buf = (case res of None \<Rightarrow> Some buf | Some data \<Rightarrow> read_into buf data)"

subsection \<open>Mesh, datasets and outputs\<close>

text \<open>
  The headers \<^verbatim>\<open>crayfish.h\<close>, \<^verbatim>\<open>crayfish_mesh.h\<close>, \<^verbatim>\<open>crayfish_dataset.h\<close> and
  \<^verbatim>\<open>crayfish_output.h\<close> are not part of the sources. The records have the fields the
  loader assigns. \<^verbatim>\<open>DataSet::updateZRange\<close> (lines 158, 204, 247) caches the range of the
  values and changes no output; it is left out.
\<close>

datatype LoadStatus_Error = Err_None | Err_UnknownFormat

record 'f Node =
  node_id :: int
  node_x :: 'f
  node_y :: 'f

datatype Element_Type = E_Undefined | E3T

record Element =
  elem_id :: int
  elem_eType :: Element_Type
  elem_p :: "32 word list"

record 'f Output =
  out_time :: 'f
  out_values :: "'f list"
  out_valuesV :: "('f \<times> 'f) list"
  out_active :: "bool list"

datatype DataSet_Type = Bed | Scalar | Vector

record 'f DataSet =
  ds_fileName :: string
  ds_type :: DataSet_Type
  ds_name :: string
  ds_isTimeVarying :: bool
  ds_outputs :: "'f Output list"

record 'f Mesh =
  mesh_nodes :: "'f Node list"
  mesh_elements :: "Element list"
  mesh_dataSets :: "'f DataSet list"

text \<open>
  What a call of \<^verbatim>\<open>loadSWW\<close> does: it returns with the status and the mesh pointer
  (\<open>None\<close> is the null pointer), or it runs into undefined behaviour (a buffer overrun, a
  read outside an array, an \<^verbatim>\<open>int\<close> that overflows). The status is what
  \<^verbatim>\<open>status->mLastError\<close> holds at the return when the caller passes a status object.
\<close>

datatype 'f load_result = Undefined_Behaviour | Returned LoadStatus_Error "'f Mesh option"

text \<open>
  The slots of \<^verbatim>\<open>Mesh::Nodes nodes(nPoints)\<close> and \<^verbatim>\<open>Mesh::Elements elements(nVolumes)\<close>
  before the loops of lines 128 and 139 assign them. Each slot is assigned before the
  array is used, so these values never reach the result.
\<close>

definition Node_default :: "'f float_ops \<Rightarrow> 'f Node" where
  "Node_default ops = \<lparr>node_id = 0, node_x = fzero ops, node_y = fzero ops\<rparr>"

definition Element_default :: Element where
  "Element_default = \<lparr>elem_id = 0, elem_eType = E_Undefined, elem_p = [0, 0, 0]\<rparr>"

text \<open>
  Modelled from the spec: \<^verbatim>\<open>Output::init(nodeCount, elemCount, isVector)\<close> of
  \<^verbatim>\<open>crayfish_output.h\<close>, which is not part of the sources. Section 3 of the spec: an output
  has a per-node scalar array of length \<open>nodeCount\<close>, an optional per-node vector array of
  the same length, and a per-element active array of length \<open>elemCount\<close>. The fresh slots
  hold zero. The loader assigns the time right after each call (lines 122, 176, 221), so
  the time is an argument here.
\<close>

definition Output_init :: "'f float_ops \<Rightarrow> nat \<Rightarrow> nat \<Rightarrow> bool \<Rightarrow> 'f \<Rightarrow> 'f Output" where
  "Output_init ops nodeCount elemCount isVector t =
     \<lparr>out_time = t,
      out_values = replicate nodeCount (fzero ops),
      out_valuesV = (if isVector then replicate nodeCount (fzero ops, fzero ops) else []),
      out_active = replicate elemCount False\<rparr>"

text \<open>
  Modelled from the spec: \<^verbatim>\<open>Output::float2D::length()\<close> of \<^verbatim>\<open>crayfish_output.h\<close>, which is
  not part of the sources. Section 3 of the spec: the scalar value of a vector output is
  the Euclidean norm of the vector, \<open>sqrt(x\<^sup>2 + y\<^sup>2)\<close>.
\<close>

definition float2D_length :: "'f float_ops \<Rightarrow> 'f \<times> 'f \<Rightarrow> 'f" where
  "float2D_length ops v =
     fsqrt ops (fadd ops (fmul ops (fst v) (fst v)) (fmul ops (snd v) (snd v)))"

subsection \<open>Loops\<close>

text \<open>\<^verbatim>\<open>for (int i = i0; i < n; ++i) body\<close>, on a state \<open>s\<close>.\<close>

function for_loop :: "nat \<Rightarrow> nat \<Rightarrow> (nat \<Rightarrow> 's \<Rightarrow> 's) \<Rightarrow> 's \<Rightarrow> 's" where
  "for_loop i n body s = (if i < n then for_loop (Suc i) n body (body i s) else s)"
  by pat_completeness auto
termination
  by (relation "measure (\<lambda>(i, n, body, s). n - i)") auto

declare for_loop.simps [simp del]

text \<open>The same loop with a body that can run into undefined behaviour (\<open>None\<close>).\<close>

function for_loop_ub :: "nat \<Rightarrow> nat \<Rightarrow> (nat \<Rightarrow> 's \<Rightarrow> 's option) \<Rightarrow> 's \<Rightarrow> 's option" where
  "for_loop_ub i n body s =
     (if i < n then (case body i s of None \<Rightarrow> None | Some s' \<Rightarrow> for_loop_ub (Suc i) n body s')
      else Some s)"
  by pat_completeness auto
termination
  by (relation "measure (\<lambda>(i, n, body, s). n - i)") auto

declare for_loop_ub.simps [simp del]

subsection \<open>Schema lookups (lines 56-97)\<close>

text \<open>
  Lines 59-76: the ids of the four dimensions, then their lengths. The result is
  \<open>(nVolumes, nVertices, nPoints, nTimesteps)\<close>; \<open>None\<close> when a lookup fails.
\<close>

definition get_dimensions :: "'f container \<Rightarrow> (nat \<times> nat \<times> nat \<times> nat) option" where
  "get_dimensions c =
     (case nc_inq_dimid c ''number_of_volumes'' of None \<Rightarrow> None | Some nVolumesId \<Rightarrow>
      case nc_inq_dimid c ''number_of_vertices'' of None \<Rightarrow> None | Some nVerticesId \<Rightarrow>
      case nc_inq_dimid c ''number_of_points'' of None \<Rightarrow> None | Some nPointsId \<Rightarrow>
      case nc_inq_dimid c ''number_of_timesteps'' of None \<Rightarrow> None | Some nTimestepsId \<Rightarrow>
      case nc_inq_dimlen c nVolumesId of None \<Rightarrow> None | Some nVolumes \<Rightarrow>
      case nc_inq_dimlen c nVerticesId of None \<Rightarrow> None | Some nVertices \<Rightarrow>
      case nc_inq_dimlen c nPointsId of None \<Rightarrow> None | Some nPoints \<Rightarrow>
      case nc_inq_dimlen c nTimestepsId of None \<Rightarrow> None | Some nTimesteps \<Rightarrow>
      Some (nVolumes, nVertices, nPoints, nTimesteps))"

text \<open>
  Lines 86-97: the ids of the six variables, \<open>(xid, yid, zid, volumesid, timeid, stageid)\<close>;
  \<open>None\<close> when a lookup fails.
\<close>

definition get_variables :: "'f container \<Rightarrow> (nat \<times> nat \<times> nat \<times> nat \<times> nat \<times> nat) option" where
  "get_variables c =
     (case nc_inq_varid c ''x'' of None \<Rightarrow> None | Some xid \<Rightarrow>
      case nc_inq_varid c ''y'' of None \<Rightarrow> None | Some yid \<Rightarrow>
      case nc_inq_varid c ''z'' of None \<Rightarrow> None | Some zid \<Rightarrow>
      case nc_inq_varid c ''volumes'' of None \<Rightarrow> None | Some volumesid \<Rightarrow>
      case nc_inq_varid c ''time'' of None \<Rightarrow> None | Some timeid \<Rightarrow>
      case nc_inq_varid c ''stage'' of None \<Rightarrow> None | Some stageid \<Rightarrow>
      Some (xid, yid, zid, volumesid, timeid, stageid))"

subsection \<open>Geometry and bed elevation (lines 114-159)\<close>

text \<open>Lines 115-117: an attribute that cannot be read leaves the variable at its initial 0.\<close>

definition get_corner :: "'f float_ops \<Rightarrow> 'f container \<Rightarrow> string \<Rightarrow> 'f" where
  "get_corner ops c name = (case nc_get_att_float c name of None \<Rightarrow> fzero ops | Some v \<Rightarrow> v)"

text \<open>
  Lines 126-134: the loop over the points assigns the nodes and copies the elevations into
  the bed output. The state is the pair of the two arrays.
\<close>

definition load_nodes ::
  "'f float_ops \<Rightarrow> nat \<Rightarrow> 'f list \<Rightarrow> 'f list \<Rightarrow> 'f list \<Rightarrow> 'f \<Rightarrow> 'f \<Rightarrow> 'f list \<Rightarrow> 'f Node list \<times> 'f list" where
  "load_nodes ops nPoints px py pz xLLcorner yLLcorner o_values =
     for_loop 0 nPoints
       (\<lambda>i (nodes, values).
          (nodes[i := \<lparr>node_id = int i,
                       node_x = fadd ops (px ! i) xLLcorner,
                       node_y = fadd ops (py ! i) yLLcorner\<rparr>],
           values[i := pz ! i]))
       (replicate nPoints (Node_default ops), o_values)"

text \<open>Lines 136-146: the loop over the volumes assigns the elements.\<close>

definition load_elements :: "nat \<Rightarrow> 32 word list \<Rightarrow> Element list" where
  "load_elements nVolumes pvolumes =
     for_loop 0 nVolumes
       (\<lambda>i elements.
          elements[i := \<lparr>elem_id = int i,
                          elem_eType = E3T,
                          elem_p = [pvolumes ! (3 * i + 0), pvolumes ! (3 * i + 1), pvolumes ! (3 * i + 2)]\<rparr>])
       (replicate nVolumes Element_default)"

subsection \<open>Depth (lines 161-205)\<close>

text \<open>
  Lines 191-199: the loop over the elements of one timestep. \<^verbatim>\<open>values\<close> is a plain
  pointer to \<open>nPoints\<close> floats, so reading it at a node index that is not below \<open>nPoints\<close>
  is undefined behaviour.
\<close>

definition depth_active :: "'f float_ops \<Rightarrow> nat \<Rightarrow> Element list \<Rightarrow> 'f list \<Rightarrow> bool list \<Rightarrow> bool list option" where
  "depth_active ops nVolumes elements values active0 =
     for_loop_ub 0 nVolumes
       (\<lambda>elemidx active.
          let elem = elements ! elemidx;
              p0 = unat (elem_p elem ! 0);
              p1 = unat (elem_p elem ! 1);
              p2 = unat (elem_p elem ! 2)
          in if length values \<le> p0 \<or> length values \<le> p1 \<or> length values \<le> p2 then None
             else Some (active[elemidx :=
                    fgt_double ops (values ! p0) DEPTH_THRESHOLD \<or>
                    fgt_double ops (values ! p1) DEPTH_THRESHOLD \<or>
                    fgt_double ops (values ! p2) DEPTH_THRESHOLD]))
       active0"

text \<open>Lines 174-199: the output of timestep \<open>t\<close>.\<close>

definition depth_output ::
  "'f float_ops \<Rightarrow> 'f container \<Rightarrow> nat \<Rightarrow> nat \<Rightarrow> nat \<Rightarrow> 'f list \<Rightarrow> 'f list \<Rightarrow> Element list \<Rightarrow> nat \<Rightarrow> 'f Output option" where
  "depth_output ops c stageid nPoints nVolumes times_buf elev elements t =
     (let to = Output_init ops nPoints nVolumes False (fdiv_double ops (times_buf ! t) 3600)
      in case unchecked_read (nc_get_vars_float c stageid (t, 0) (1, nPoints)) (out_values to) of
           None \<Rightarrow> None
         | Some stage \<Rightarrow>
             let values = for_loop 0 nPoints (\<lambda>j values. values[j := fsub ops (values ! j) (elev ! j)]) stage
             in case depth_active ops nVolumes elements values (out_active to) of
                  None \<Rightarrow> None
                | Some active \<Rightarrow> Some (to\<lparr>out_values := values, out_active := active\<rparr>))"

text \<open>Lines 172-202: the loop over the timesteps; the state is the list of outputs of the dataset.\<close>

definition depth_outputs ::
  "'f float_ops \<Rightarrow> 'f container \<Rightarrow> nat \<Rightarrow> nat \<Rightarrow> nat \<Rightarrow> nat \<Rightarrow> 'f list \<Rightarrow> 'f list \<Rightarrow> Element list \<Rightarrow> 'f Output list option" where
  "depth_outputs ops c stageid nPoints nVolumes nTimesteps times_buf elev elements =
     for_loop_ub 0 nTimesteps
       (\<lambda>t outputs.
          case depth_output ops c stageid nPoints nVolumes times_buf elev elements t of
            None \<Rightarrow> None
          | Some to \<Rightarrow> Some (outputs @ [to]))
       []"

subsection \<open>Momentum (lines 207-249)\<close>

text \<open>
  Lines 219-243: one timestep. The buffers \<^verbatim>\<open>valuesX\<close> and \<^verbatim>\<open>valuesY\<close> are declared before
  the loop (line 216) and live across the timesteps, so they are part of the state with
  the list of outputs.
\<close>

definition momentum_step ::
  "'f float_ops \<Rightarrow> 'f container \<Rightarrow> nat \<Rightarrow> nat \<Rightarrow> nat \<Rightarrow> nat \<Rightarrow> 'f list \<Rightarrow> 'f Output list \<Rightarrow> nat \<Rightarrow>
   'f Output list \<times> 'f list \<times> 'f list \<Rightarrow> ('f Output list \<times> 'f list \<times> 'f list) option" where
  "momentum_step ops c momentumxid momentumyid nPoints nVolumes times_buf ds_outs t st =
     (let outputs = fst st;
          mto = (Output_init ops nPoints nVolumes True (fdiv_double ops (times_buf ! t) 3600))
                  \<lparr>out_active := out_active (ds_outs ! t)\<rparr>
      in case unchecked_read (nc_get_vars_float c momentumxid (t, 0) (1, nPoints)) (fst (snd st)) of
           None \<Rightarrow> None
         | Some valuesX \<Rightarrow>
       case unchecked_read (nc_get_vars_float c momentumyid (t, 0) (1, nPoints)) (snd (snd st)) of
           None \<Rightarrow> None
         | Some valuesY \<Rightarrow>
             let filled = for_loop 0 nPoints
                   (\<lambda>i (mtoValuesV, mtoValues).
                      let mtoValuesV' = mtoValuesV[i := (valuesX ! i, valuesY ! i)]
                      in (mtoValuesV', mtoValues[i := float2D_length ops (mtoValuesV' ! i)]))
                   (out_valuesV mto, out_values mto)
             in Some (outputs @ [mto\<lparr>out_values := snd filled, out_valuesV := fst filled\<rparr>],
                      valuesX, valuesY))"

text \<open>Lines 216-244: the loop over the timesteps.\<close>

definition momentum_outputs ::
  "'f float_ops \<Rightarrow> 'f container \<Rightarrow> nat \<Rightarrow> nat \<Rightarrow> nat \<Rightarrow> nat \<Rightarrow> nat \<Rightarrow> 'f list \<Rightarrow> 'f Output list \<Rightarrow> 'f Output list option" where
  "momentum_outputs ops c momentumxid momentumyid nPoints nVolumes nTimesteps times_buf ds_outs =
     map_option fst
       (for_loop_ub 0 nTimesteps
          (momentum_step ops c momentumxid momentumyid nPoints nVolumes times_buf ds_outs)
          ([], replicate nPoints (fzero ops), replicate nPoints (fzero ops)))"

text \<open>
  Lines 207-249: the momentum dataset, when both variables are found. The result is the
  list of datasets to append to the mesh (none or one).
\<close>

definition load_momentum ::
  "'f float_ops \<Rightarrow> string \<Rightarrow> 'f container \<Rightarrow> nat \<Rightarrow> nat \<Rightarrow> nat \<Rightarrow> 'f list \<Rightarrow> 'f Output list \<Rightarrow> 'f DataSet list option" where
  "load_momentum ops fileName c nPoints nVolumes nTimesteps times_buf ds_outs =
     (case nc_inq_varid c ''xmomentum'' of None \<Rightarrow> Some [] | Some momentumxid \<Rightarrow>
      case nc_inq_varid c ''ymomentum'' of None \<Rightarrow> Some [] | Some momentumyid \<Rightarrow>
      case momentum_outputs ops c momentumxid momentumyid nPoints nVolumes nTimesteps times_buf ds_outs of
        None \<Rightarrow> None
      | Some outs \<Rightarrow>
          Some [\<lparr>ds_fileName = fileName, ds_type = Vector, ds_name = ''Momentum'',
                 ds_isTimeVarying = True, ds_outputs = outs\<rparr>])"

subsection \<open>The loader\<close>

text \<open>
  Lines 114-253, entered once the four arrays of the mesh are in their buffers: the nodes
  and the elements, the three datasets, and the mesh that is returned. The sizes of the Qt
  vectors and the loop counters are \<^verbatim>\<open>int\<close>, and line 143 computes \<^verbatim>\<open>3*i\<close> in
  \<^verbatim>\<open>int\<close>: a number of volumes or of timesteps that does not fit is undefined behaviour.
  So is a time axis with more values than \<open>nTimesteps\<close> (line 169 overruns the buffer).
\<close>

definition build_mesh ::
  "'f float_ops \<Rightarrow> string \<Rightarrow> 'f container \<Rightarrow> nat \<Rightarrow> nat \<Rightarrow> nat \<Rightarrow> nat \<Rightarrow> nat \<Rightarrow>
   'f list \<Rightarrow> 'f list \<Rightarrow> 'f list \<Rightarrow> 32 word list \<Rightarrow> 'f load_result" where
  "build_mesh ops fileName c nVolumes nPoints nTimesteps timeid stageid px py pz pvolumes =
     (let xLLcorner = get_corner ops c ''xllcorner'';
          yLLcorner = get_corner ops c ''yllcorner''
      in if INT_MAX < 3 * nVolumes then Undefined_Behaviour
      else
      let o_init = (Output_init ops nPoints nVolumes False (fzero ops))
                     \<lparr>out_active := replicate nVolumes True\<rparr>;
          loaded = load_nodes ops nPoints px py pz xLLcorner yLLcorner (out_values o_init);
          nodes = fst loaded;
          o_bed = o_init\<lparr>out_values := snd loaded\<rparr>;
          elements = load_elements nVolumes pvolumes;
          bedDs = \<lparr>ds_fileName = fileName, ds_type = Bed, ds_name = ''Bed Elevation'',
                    ds_isTimeVarying = False, ds_outputs = [o_bed]\<rparr>
      in if INT_MAX < nTimesteps then Undefined_Behaviour
      else
      case unchecked_read (nc_get_var_float c timeid) (replicate nTimesteps (fzero ops)) of
        None \<Rightarrow> Undefined_Behaviour
      | Some times_buf \<Rightarrow>
      case depth_outputs ops c stageid nPoints nVolumes nTimesteps times_buf (out_values o_bed) elements of
        None \<Rightarrow> Undefined_Behaviour
      | Some outs \<Rightarrow>
      let ds = \<lparr>ds_fileName = fileName, ds_type = Scalar, ds_name = ''Depth'',
                 ds_isTimeVarying = True, ds_outputs = outs\<rparr>
      in case load_momentum ops fileName c nPoints nVolumes nTimesteps times_buf outs of
        None \<Rightarrow> Undefined_Behaviour
      | Some mds \<Rightarrow>
          Returned Err_None
            (Some \<lparr>mesh_nodes = nodes, mesh_elements = elements,
                    mesh_dataSets = [bedDs, ds] @ mds\<rparr>))"

text \<open>
  Every failing exit of the loader (lines 51-53, 64-66, 73-75, 81-83, 94-96, 107-111):
  the container is closed, the status is set and the null pointer is returned.
\<close>

definition fail_UnknownFormat :: "'f load_result" where
  "fail_UnknownFormat = Returned Err_UnknownFormat None"

text \<open>
  \<^verbatim>\<open>Mesh* loadSWW(const QString& fileName, LoadStatus* status)\<close>, on the container that
  \<^verbatim>\<open>nc_open\<close> finds under \<open>fileName\<close>. Lines 100-112 read the four arrays of the mesh; the
  three float buffers are zero-initialised Qt vectors of \<open>nPoints\<close> slots, the buffer of
  the connectivity is a fresh array of \<open>nVertices * nVolumes\<close> slots whose contents are
  indeterminate until the read fills all of them. A number of points above \<open>INT_MAX\<close> does
  not fit the \<^verbatim>\<open>int\<close> size of the Qt vectors of line 100.
\<close>

definition loadSWW :: "'f float_ops \<Rightarrow> string \<Rightarrow> 'f container \<Rightarrow> 'f load_result" where
  "loadSWW ops fileName c =
     (if \<not> nc_open c then fail_UnknownFormat
      else
      case get_dimensions c of None \<Rightarrow> fail_UnknownFormat
      | Some (nVolumes, nVertices, nPoints, nTimesteps) \<Rightarrow>
      if nVertices \<noteq> 3 then fail_UnknownFormat
      else
      case get_variables c of None \<Rightarrow> fail_UnknownFormat
      | Some (xid, yid, zid, volumesid, timeid, stageid) \<Rightarrow>
      if INT_MAX < nPoints then Undefined_Behaviour
      else
      case nc_get_var_float c xid of None \<Rightarrow> fail_UnknownFormat | Some xs \<Rightarrow>
      case read_into (replicate nPoints (fzero ops)) xs of None \<Rightarrow> Undefined_Behaviour | Some px \<Rightarrow>
      case nc_get_var_float c yid of None \<Rightarrow> fail_UnknownFormat | Some ys \<Rightarrow>
      case read_into (replicate nPoints (fzero ops)) ys of None \<Rightarrow> Undefined_Behaviour | Some py \<Rightarrow>
      case nc_get_var_float c zid of None \<Rightarrow> fail_UnknownFormat | Some zs \<Rightarrow>
      case read_into (replicate nPoints (fzero ops)) zs of None \<Rightarrow> Undefined_Behaviour | Some pz \<Rightarrow>
      case nc_get_var_int c volumesid of None \<Rightarrow> fail_UnknownFormat | Some pvolumes \<Rightarrow>
      if length pvolumes \<noteq> nVertices * nVolumes then Undefined_Behaviour
      else build_mesh ops fileName c nVolumes nPoints nTimesteps timeid stageid px py pz pvolumes)"

subsection \<open>The contents of a container by name\<close>

text \<open>
  The loader looks a dimension or a variable up by its name and then reads it by its id.
  The two steps together give the length of a named dimension, the values of a named
  variable, and the row \<open>t\<close> of a named two-dimensional variable as the loader asks for it
  (\<^verbatim>\<open>start = {t, 0}\<close>, \<^verbatim>\<open>count = {1, n}\<close>). The theorems name the arrays of the file
  this way.
\<close>

definition dimension :: "'f container \<Rightarrow> string \<Rightarrow> nat option" where
  "dimension c name = (case nc_inq_dimid c name of None \<Rightarrow> None | Some d \<Rightarrow> nc_inq_dimlen c d)"

definition float_variable :: "'f container \<Rightarrow> string \<Rightarrow> 'f list option" where
  "float_variable c name = (case nc_inq_varid c name of None \<Rightarrow> None | Some v \<Rightarrow> nc_get_var_float c v)"

definition int_variable :: "'f container \<Rightarrow> string \<Rightarrow> 32 word list option" where
  "int_variable c name = (case nc_inq_varid c name of None \<Rightarrow> None | Some v \<Rightarrow> nc_get_var_int c v)"

definition float_row :: "'f container \<Rightarrow> string \<Rightarrow> nat \<Rightarrow> nat \<Rightarrow> 'f list option" where
  "float_row c name t n =
     (case nc_inq_varid c name of None \<Rightarrow> None | Some v \<Rightarrow> nc_get_vars_float c v (t, 0) (1, n))"

text \<open>
  What the output of timestep \<open>t\<close> of the momentum dataset holds (lines 219-241): the time of
  the timestep, the active flags of the depth output of the same timestep, and at every
  node for which both rows of the file have a value, that pair and its length.
\<close>

definition momentum_output_ok ::
  "'f float_ops \<Rightarrow> 'f container \<Rightarrow> nat \<Rightarrow> nat \<Rightarrow> nat \<Rightarrow> 'f list \<Rightarrow> 'f Output list \<Rightarrow> nat \<Rightarrow> 'f Output \<Rightarrow> bool" where
  "momentum_output_ok ops c momentumxid momentumyid nPoints times_buf ds_outs t out \<longleftrightarrow>
     out_time out = fdiv_double ops (times_buf ! t) 3600 \<and>
     out_active out = out_active (ds_outs ! t) \<and>
     length (out_values out) = nPoints \<and>
     length (out_valuesV out) = nPoints \<and>
     (\<forall>xrow yrow n.
        nc_get_vars_float c momentumxid (t, 0) (1, nPoints) = Some xrow \<longrightarrow>
        nc_get_vars_float c momentumyid (t, 0) (1, nPoints) = Some yrow \<longrightarrow>
        n < length xrow \<longrightarrow> n < length yrow \<longrightarrow>
        out_valuesV out ! n = (xrow ! n, yrow ! n) \<and>
        out_values out ! n = float2D_length ops (xrow ! n, yrow ! n))"

subsection \<open>Sample containers\<close>

text \<open>
  The operations of exact arithmetic on the reals stand in for the floats when the loader
  is run on a sample container.
\<close>

definition exact_ops :: "real float_ops" where
  "exact_ops = \<lparr>fzero = 0, fadd = (+), fsub = (-), fmul = (*), fsqrt = sqrt,
                 fdiv_double = (/), fgt_double = (>)\<rparr>"

text \<open>
  Four points, two triangles \<open>[0,1,2]\<close> and \<open>[0,2,3]\<close>, one timestep at 7200 seconds, both
  momentum variables and an \<^verbatim>\<open>xllcorner\<close> of 100 (no \<^verbatim>\<open>yllcorner\<close>). The depths are
  0.00005, 0.001, 0.00005 and 0.00005: only node 1 is wet.
\<close>

definition sample :: "real container" where
  "sample =
     \<lparr>nc_open = True,
      nc_inq_dimid = map_of [(''number_of_volumes'', 0), (''number_of_vertices'', 1),
                             (''number_of_points'', 2), (''number_of_timesteps'', 3)],
      nc_inq_dimlen = map_of [(0, 2), (1, 3), (2, 4), (3, 1)],
      nc_inq_varid = map_of [(''x'', 0), (''y'', 1), (''z'', 2), (''volumes'', 3), (''time'', 4),
                             (''stage'', 5), (''xmomentum'', 6), (''ymomentum'', 7)],
      nc_get_var_float = map_of [(0, [0, 1, 1, 0]), (1, [0, 0, 1, 1]), (2, [10, 10, 10, 12]),
                                 (4, [7200])],
      nc_get_var_int = map_of [(3, [0, 1, 2, 0, 2, 3])],
      nc_get_att_float = map_of [(''xllcorner'', 100)],
      nc_get_vars_float = (\<lambda>v start count.
         if start = (0, 0) \<and> count = (1, 4)
         then map_of [(5, [200001 / 20000, 10001 / 1000, 200001 / 20000, 240001 / 20000]),
                      (6, [0, 3, 0, 0]), (7, [0, 4, 0, 0])] v
         else None)\<rparr>"

text \<open>
  The same container when the reads of the time axis and of the rows of \<^verbatim>\<open>stage\<close>,
  \<^verbatim>\<open>xmomentum\<close> and \<^verbatim>\<open>ymomentum\<close> fail (the variables are there, the calls return an error).
\<close>

definition sample_unreadable :: "real container" where
  "sample_unreadable =
     sample\<lparr>nc_get_var_float := map_of [(0, [0, 1, 1, 0]), (1, [0, 0, 1, 1]), (2, [10, 10, 10, 12])],
            nc_get_vars_float := (\<lambda>v start count. None)\<rparr>"

text \<open>
  One point, one triangle \<open>[0,1,2]\<close> whose second and third node do not exist, and no
  timestep.
\<close>

definition sample_dangling :: "real container" where
  "sample_dangling =
     \<lparr>nc_open = True,
      nc_inq_dimid = map_of [(''number_of_volumes'', 0), (''number_of_vertices'', 1),
                             (''number_of_points'', 2), (''number_of_timesteps'', 3)],
      nc_inq_dimlen = map_of [(0, 1), (1, 3), (2, 1), (3, 0)],
      nc_inq_varid = map_of [(''x'', 0), (''y'', 1), (''z'', 2), (''volumes'', 3), (''time'', 4),
                             (''stage'', 5)],
      nc_get_var_float = map_of [(0, [0]), (1, [0]), (2, [5]), (4, [])],
      nc_get_var_int = map_of [(3, [0, 1, 2])],
      nc_get_att_float = (\<lambda>name. None),
      nc_get_vars_float = (\<lambda>v start count. None)\<rparr>"

text \<open>The first sample with no timestep, with quadrilaterals, and without \<^verbatim>\<open>stage\<close>.\<close>

definition sample_no_steps :: "real container" where
  "sample_no_steps =
     sample\<lparr>nc_inq_dimlen := map_of [(0, 2), (1, 3), (2, 4), (3, 0)],
            nc_get_var_float := map_of [(0, [0, 1, 1, 0]), (1, [0, 0, 1, 1]), (2, [10, 10, 10, 12]),
                                        (4, [])],
            nc_get_vars_float := (\<lambda>v start count. None)\<rparr>"

definition sample_quads :: "real container" where
  "sample_quads = sample\<lparr>nc_inq_dimlen := map_of [(0, 2), (1, 4), (2, 4), (3, 1)]\<rparr>"

definition sample_no_stage :: "real container" where
  "sample_no_stage =
     sample\<lparr>nc_inq_varid := map_of [(''x'', 0), (''y'', 1), (''z'', 2), (''volumes'', 3),
                                    (''time'', 4)]\<rparr>"

text \<open>
  The meshes the loader returns for the first sample, for the sample whose later reads
  fail, and for the sample with the dangling triangle.
\<close>

definition sample_mesh :: "real Mesh" where
  "sample_mesh =
     \<lparr>mesh_nodes =
        [\<lparr>node_id = 0, node_x = 100, node_y = 0\<rparr>,
         \<lparr>node_id = 1, node_x = 101, node_y = 0\<rparr>,
         \<lparr>node_id = 2, node_x = 101, node_y = 1\<rparr>,
         \<lparr>node_id = 3, node_x = 100, node_y = 1\<rparr>],
      mesh_elements =
        [\<lparr>elem_id = 0, elem_eType = E3T, elem_p = [0, 1, 2]\<rparr>,
         \<lparr>elem_id = 1, elem_eType = E3T, elem_p = [0, 2, 3]\<rparr>],
      mesh_dataSets =
        [\<lparr>ds_fileName = ''a.sww'', ds_type = Bed, ds_name = ''Bed Elevation'',
           ds_isTimeVarying = False,
           ds_outputs = [\<lparr>out_time = 0, out_values = [10, 10, 10, 12], out_valuesV = [],
                           out_active = [True, True]\<rparr>]\<rparr>,
         \<lparr>ds_fileName = ''a.sww'', ds_type = Scalar, ds_name = ''Depth'',
           ds_isTimeVarying = True,
           ds_outputs = [\<lparr>out_time = 2, out_values = [1 / 20000, 1 / 1000, 1 / 20000, 1 / 20000],
                           out_valuesV = [], out_active = [True, False]\<rparr>]\<rparr>,
         \<lparr>ds_fileName = ''a.sww'', ds_type = Vector, ds_name = ''Momentum'',
           ds_isTimeVarying = True,
           ds_outputs = [\<lparr>out_time = 2, out_values = [0, 5, 0, 0],
                           out_valuesV = [(0, 0), (3, 4), (0, 0), (0, 0)],
                           out_active = [True, False]\<rparr>]\<rparr>]\<rparr>"

definition sample_unreadable_mesh :: "real Mesh" where
  "sample_unreadable_mesh =
     \<lparr>mesh_nodes =
        [\<lparr>node_id = 0, node_x = 100, node_y = 0\<rparr>,
         \<lparr>node_id = 1, node_x = 101, node_y = 0\<rparr>,
         \<lparr>node_id = 2, node_x = 101, node_y = 1\<rparr>,
         \<lparr>node_id = 3, node_x = 100, node_y = 1\<rparr>],
      mesh_elements =
        [\<lparr>elem_id = 0, elem_eType = E3T, elem_p = [0, 1, 2]\<rparr>,
         \<lparr>elem_id = 1, elem_eType = E3T, elem_p = [0, 2, 3]\<rparr>],
      mesh_dataSets =
        [\<lparr>ds_fileName = ''a.sww'', ds_type = Bed, ds_name = ''Bed Elevation'',
           ds_isTimeVarying = False,
           ds_outputs = [\<lparr>out_time = 0, out_values = [10, 10, 10, 12], out_valuesV = [],
                           out_active = [True, True]\<rparr>]\<rparr>,
         \<lparr>ds_fileName = ''a.sww'', ds_type = Scalar, ds_name = ''Depth'',
           ds_isTimeVarying = True,
           ds_outputs = [\<lparr>out_time = 0, out_values = [- 10, - 10, - 10, - 12],
                           out_valuesV = [], out_active = [False, False]\<rparr>]\<rparr>,
         \<lparr>ds_fileName = ''a.sww'', ds_type = Vector, ds_name = ''Momentum'',
           ds_isTimeVarying = True,
           ds_outputs = [\<lparr>out_time = 0, out_values = [0, 0, 0, 0],
                           out_valuesV = [(0, 0), (0, 0), (0, 0), (0, 0)],
                           out_active = [False, False]\<rparr>]\<rparr>]\<rparr>"

definition sample_dangling_mesh :: "real Mesh" where
  "sample_dangling_mesh =
     \<lparr>mesh_nodes = [\<lparr>node_id = 0, node_x = 0, node_y = 0\<rparr>],
      mesh_elements = [\<lparr>elem_id = 0, elem_eType = E3T, elem_p = [0, 1, 2]\<rparr>],
      mesh_dataSets =
        [\<lparr>ds_fileName = ''b.sww'', ds_type = Bed, ds_name = ''Bed Elevation'',
           ds_isTimeVarying = False,
           ds_outputs = [\<lparr>out_time = 0, out_values = [5], out_valuesV = [],
                           out_active = [True]\<rparr>]\<rparr>,
         \<lparr>ds_fileName = ''b.sww'', ds_type = Scalar, ds_name = ''Depth'',
           ds_isTimeVarying = True, ds_outputs = []\<rparr>]\<rparr>"

text \<open>
  The first sample without the two momentum variables, and the mesh the loader returns for
  it.
\<close>

definition sample_no_momentum :: "real container" where
  "sample_no_momentum =
     sample\<lparr>nc_inq_varid := map_of [(''x'', 0), (''y'', 1), (''z'', 2), (''volumes'', 3),
                                    (''time'', 4), (''stage'', 5)]\<rparr>"

definition sample_no_momentum_mesh :: "real Mesh" where
  "sample_no_momentum_mesh =
     \<lparr>mesh_nodes =
        [\<lparr>node_id = 0, node_x = 100, node_y = 0\<rparr>,
         \<lparr>node_id = 1, node_x = 101, node_y = 0\<rparr>,
         \<lparr>node_id = 2, node_x = 101, node_y = 1\<rparr>,
         \<lparr>node_id = 3, node_x = 100, node_y = 1\<rparr>],
      mesh_elements =
        [\<lparr>elem_id = 0, elem_eType = E3T, elem_p = [0, 1, 2]\<rparr>,
         \<lparr>elem_id = 1, elem_eType = E3T, elem_p = [0, 2, 3]\<rparr>],
      mesh_dataSets =
        [\<lparr>ds_fileName = ''a.sww'', ds_type = Bed, ds_name = ''Bed Elevation'',
           ds_isTimeVarying = False,
           ds_outputs = [\<lparr>out_time = 0, out_values = [10, 10, 10, 12], out_valuesV = [],
                           out_active = [True, True]\<rparr>]\<rparr>,
         \<lparr>ds_fileName = ''a.sww'', ds_type = Scalar, ds_name = ''Depth'',
           ds_isTimeVarying = True,
           ds_outputs = [\<lparr>out_time = 2, out_values = [1 / 20000, 1 / 1000, 1 / 20000, 1 / 20000],
                           out_valuesV = [], out_active = [True, False]\<rparr>]\<rparr>]\<rparr>"

text \<open>
  The sample with no timestep whose \<^verbatim>\<open>time\<close> variable nevertheless holds one value.
\<close>

definition sample_no_steps_timed :: "real container" where
  "sample_no_steps_timed =
     sample_no_steps\<lparr>nc_get_var_float :=
        map_of [(0, [0, 1, 1, 0]), (1, [0, 0, 1, 1]), (2, [10, 10, 10, 12]), (4, [7200])]\<rparr>"

section \<open>Properties of the loader\<close>

subsection \<open>Loops\<close>

lemma for_loop_step: "i < n \<Longrightarrow> for_loop i n body s = for_loop (Suc i) n body (body i s)"
  by (subst for_loop.simps) simp

lemma for_loop_done: "\<not> i < n \<Longrightarrow> for_loop i n body s = s"
  by (subst for_loop.simps) simp

lemma for_loop_ub_step:
  "i < n \<Longrightarrow> for_loop_ub i n body s =
     (case body i s of None \<Rightarrow> None | Some s' \<Rightarrow> for_loop_ub (Suc i) n body s')"
  by (subst for_loop_ub.simps) simp

lemma for_loop_ub_done: "\<not> i < n \<Longrightarrow> for_loop_ub i n body s = Some s"
  by (subst for_loop_ub.simps) simp

lemma for_loop_last:
  "i \<le> n \<Longrightarrow> for_loop i (Suc n) body s = body n (for_loop i n body s)"
proof (induction i n body s rule: for_loop.induct)
  case (1 i n body s)
  show ?case
  proof (cases "i < n")
    case True
    then have "for_loop i (Suc n) body s = for_loop (Suc i) (Suc n) body (body i s)"
      by (simp add: for_loop_step)
    also have "\<dots> = body n (for_loop (Suc i) n body (body i s))"
      using True "1.IH" by simp
    also have "for_loop (Suc i) n body (body i s) = for_loop i n body s"
      using True by (simp add: for_loop_step)
    finally show ?thesis .
  next
    case False
    with "1.prems" have "i = n" by simp
    then show ?thesis
      by (simp add: for_loop_step for_loop_done)
  qed
qed

lemma for_loop_ub_last:
  "i \<le> n \<Longrightarrow> for_loop_ub i (Suc n) body s =
     (case for_loop_ub i n body s of None \<Rightarrow> None | Some s' \<Rightarrow> body n s')"
proof (induction i n body s rule: for_loop_ub.induct)
  case (1 i n body s)
  show ?case
  proof (cases "i < n")
    case True
    show ?thesis
    proof (cases "body i s")
      case None
      with True show ?thesis by (simp add: for_loop_ub_step)
    next
      case (Some s')
      with True "1.IH" [OF True Some] show ?thesis
        by (simp add: for_loop_ub_step)
    qed
  next
    case False
    with "1.prems" have "i = n" by simp
    then show ?thesis
      by (simp add: for_loop_ub_step for_loop_ub_done split: option.splits)
  qed
qed

lemma for_loop_invariant:
  assumes "P 0 s"
    and "\<And>i s. i < n \<Longrightarrow> P i s \<Longrightarrow> P (Suc i) (body i s)"
  shows "P n (for_loop 0 n body s)"
proof -
  have "k \<le> n \<Longrightarrow> P k (for_loop 0 k body s)" for k
  proof (induction k)
    case 0
    show ?case using assms(1) by (simp add: for_loop_done)
  next
    case (Suc k)
    then show ?case using assms(2) [of k] by (simp add: for_loop_last)
  qed
  then show ?thesis by simp
qed

lemma for_loop_ub_invariant:
  assumes "for_loop_ub 0 n body s = Some s'"
    and "P 0 s"
    and "\<And>i s s'. i < n \<Longrightarrow> P i s \<Longrightarrow> body i s = Some s' \<Longrightarrow> P (Suc i) s'"
  shows "P n s'"
  using assms
proof (induction n arbitrary: s')
  case 0
  then show ?case by (simp add: for_loop_ub_done)
next
  case (Suc n)
  from Suc.prems(1) obtain r where r: "for_loop_ub 0 n body s = Some r" and b: "body n r = Some s'"
    by (auto simp: for_loop_ub_last split: option.splits)
  have "P n r"
    using r Suc.prems(2) Suc.prems(3) by (rule Suc.IH) simp_all
  then show ?case
    using b Suc.prems(3) [of n r s'] by simp
qed

subsection \<open>The loops of the loader\<close>

lemma load_nodes_eq:
  assumes "length pz = nPoints" and "length o_values = nPoints"
  shows "load_nodes ops nPoints px py pz xLLcorner yLLcorner o_values =
           (map (\<lambda>i. \<lparr>node_id = int i,
                        node_x = fadd ops (px ! i) xLLcorner,
                        node_y = fadd ops (py ! i) yLLcorner\<rparr>) [0..<nPoints],
            pz)"
proof -
  let ?node = "\<lambda>i. \<lparr>node_id = int i, node_x = fadd ops (px ! i) xLLcorner,
                        node_y = fadd ops (py ! i) yLLcorner\<rparr>"
  let ?P = "\<lambda>i st. length (fst st) = nPoints \<and> length (snd st) = nPoints \<and>
                     (\<forall>j<i. fst st ! j = ?node j \<and> snd st ! j = pz ! j)"
  have "?P nPoints (load_nodes ops nPoints px py pz xLLcorner yLLcorner o_values)"
    unfolding load_nodes_def
  proof (rule for_loop_invariant [where P = ?P])
    show "?P 0 (replicate nPoints (Node_default ops), o_values)"
      using assms by simp
  next
    fix i st
    assume "i < nPoints" and "?P i st"
    then show "?P (Suc i) (case st of (nodes, values) \<Rightarrow> (nodes[i := ?node i], values[i := pz ! i]))"
      by (cases st) (simp add: nth_list_update less_Suc_eq)
  qed
  then have "fst (load_nodes ops nPoints px py pz xLLcorner yLLcorner o_values) = map ?node [0..<nPoints]"
    and "snd (load_nodes ops nPoints px py pz xLLcorner yLLcorner o_values) = pz"
    using assms by (auto intro!: nth_equalityI)
  then show ?thesis
    by (simp add: prod_eq_iff)
qed

lemma load_elements_eq:
  "load_elements nVolumes pvolumes =
     map (\<lambda>i. \<lparr>elem_id = int i, elem_eType = E3T,
                 elem_p = [pvolumes ! (3 * i + 0), pvolumes ! (3 * i + 1), pvolumes ! (3 * i + 2)]\<rparr>)
       [0..<nVolumes]"
proof -
  let ?elem = "\<lambda>i. \<lparr>elem_id = int i, elem_eType = E3T,
                 elem_p = [pvolumes ! (3 * i + 0), pvolumes ! (3 * i + 1), pvolumes ! (3 * i + 2)]\<rparr>"
  let ?P = "\<lambda>i es. length es = nVolumes \<and> (\<forall>j<i. es ! j = ?elem j)"
  have "?P nVolumes (load_elements nVolumes pvolumes)"
    unfolding load_elements_def
    by (rule for_loop_invariant [where P = ?P]) (simp_all add: nth_list_update less_Suc_eq)
  then show ?thesis
    by (auto intro!: nth_equalityI)
qed

lemma depth_values_eq:
  assumes "length stage = nPoints"
  shows "for_loop 0 nPoints (\<lambda>j values. values[j := fsub ops (values ! j) (elev ! j)]) stage =
           map (\<lambda>j. fsub ops (stage ! j) (elev ! j)) [0..<nPoints]"
proof -
  let ?P = "\<lambda>i vs. length vs = nPoints \<and> (\<forall>j<i. vs ! j = fsub ops (stage ! j) (elev ! j)) \<and>
                    (\<forall>j. i \<le> j \<longrightarrow> j < nPoints \<longrightarrow> vs ! j = stage ! j)"
  have "?P nPoints (for_loop 0 nPoints (\<lambda>j values. values[j := fsub ops (values ! j) (elev ! j)]) stage)"
    by (rule for_loop_invariant [where P = ?P]) (simp_all add: assms nth_list_update less_Suc_eq)
  then show ?thesis
    by (auto intro!: nth_equalityI)
qed

lemma depth_active_Some:
  assumes "depth_active ops nVolumes elements values active0 = Some active"
    and "length active0 = nVolumes"
    and "e < nVolumes"
  shows "length active = nVolumes"
    and "unat (elem_p (elements ! e) ! 0) < length values"
    and "unat (elem_p (elements ! e) ! 1) < length values"
    and "unat (elem_p (elements ! e) ! 2) < length values"
    and "active ! e =
           (fgt_double ops (values ! unat (elem_p (elements ! e) ! 0)) DEPTH_THRESHOLD \<or>
            fgt_double ops (values ! unat (elem_p (elements ! e) ! 1)) DEPTH_THRESHOLD \<or>
            fgt_double ops (values ! unat (elem_p (elements ! e) ! 2)) DEPTH_THRESHOLD)"
proof -
  let ?ok = "\<lambda>e. unat (elem_p (elements ! e) ! 0) < length values \<and>
                   unat (elem_p (elements ! e) ! 1) < length values \<and>
                   unat (elem_p (elements ! e) ! 2) < length values"
  let ?g = "\<lambda>e. fgt_double ops (values ! unat (elem_p (elements ! e) ! 0)) DEPTH_THRESHOLD \<or>
            fgt_double ops (values ! unat (elem_p (elements ! e) ! 1)) DEPTH_THRESHOLD \<or>
            fgt_double ops (values ! unat (elem_p (elements ! e) ! 2)) DEPTH_THRESHOLD"
  let ?P = "\<lambda>i a. length a = nVolumes \<and> (\<forall>j<i. ?ok j \<and> a ! j = ?g j)"
  have "?P nVolumes active"
    using assms(1) unfolding depth_active_def
  proof (rule for_loop_ub_invariant [where P = ?P])
    show "?P 0 active0" using assms(2) by simp
  next
    fix i s s'
    assume "i < nVolumes" and "?P i s"
      and "(let elem = elements ! i;
              p0 = unat (elem_p elem ! 0);
              p1 = unat (elem_p elem ! 1);
              p2 = unat (elem_p elem ! 2)
          in if length values \<le> p0 \<or> length values \<le> p1 \<or> length values \<le> p2 then None
             else Some (s[i :=
                    fgt_double ops (values ! p0) DEPTH_THRESHOLD \<or>
                    fgt_double ops (values ! p1) DEPTH_THRESHOLD \<or>
                    fgt_double ops (values ! p2) DEPTH_THRESHOLD])) = Some s'"
    then show "?P (Suc i) s'"
      by (simp add: Let_def less_Suc_eq split: if_splits) (auto simp: nth_list_update)
  qed
  with assms(3) show "length active = nVolumes"
    and "unat (elem_p (elements ! e) ! 0) < length values"
    and "unat (elem_p (elements ! e) ! 1) < length values"
    and "unat (elem_p (elements ! e) ! 2) < length values"
    and "active ! e = ?g e"
    by simp_all
qed

lemma depth_active_length:
  assumes "depth_active ops nVolumes elements values active0 = Some active"
    and "length active0 = nVolumes"
  shows "length active = nVolumes"
proof -
  have "(\<lambda>i a. length a = nVolumes) nVolumes active"
    using assms(1) unfolding depth_active_def
    by (rule for_loop_ub_invariant [where P = "\<lambda>i a. length a = nVolumes"])
      (auto simp: assms(2) Let_def split: if_splits)
  then show ?thesis .
qed

lemma depth_outputs_Some:
  assumes "depth_outputs ops c stageid nPoints nVolumes nTimesteps times_buf elev elements = Some outs"
  shows "length outs = nTimesteps \<and>
         (\<forall>t<nTimesteps. depth_output ops c stageid nPoints nVolumes times_buf elev elements t = Some (outs ! t))"
proof -
  let ?P = "\<lambda>i os. length os = i \<and>
     (\<forall>t<i. depth_output ops c stageid nPoints nVolumes times_buf elev elements t = Some (os ! t))"
  have "?P nTimesteps outs"
    using assms unfolding depth_outputs_def
    by (rule for_loop_ub_invariant [where P = ?P]) (auto simp: nth_append less_Suc_eq split: option.splits)
  then show ?thesis .
qed


subsection \<open>Reads and lookups\<close>

lemma read_into_Some:
  "read_into buf data = Some r \<longleftrightarrow> length data \<le> length buf \<and> r = data @ drop (length data) buf"
  by (auto simp: read_into_def)

lemma read_into_replicate:
  "read_into (replicate n z) data = Some r \<longleftrightarrow>
     length data \<le> n \<and> r = data @ replicate (n - length data) z"
  by (auto simp: read_into_def)

lemma unchecked_read_length:
  "unchecked_read res buf = Some r \<Longrightarrow> length r = length buf"
  by (auto simp: unchecked_read_def read_into_def split: option.splits if_splits)

lemma unchecked_read_nth:
  "unchecked_read (Some data) buf = Some r \<Longrightarrow> i < length data \<Longrightarrow> r ! i = data ! i"
  by (auto simp: unchecked_read_def read_into_def nth_append split: if_splits)

lemma unchecked_read_bound:
  "unchecked_read (Some data) buf = Some r \<Longrightarrow> length data \<le> length buf"
  by (auto simp: unchecked_read_def read_into_def split: if_splits)

lemma get_dimensions_Some:
  "get_dimensions c = Some (nVolumes, nVertices, nPoints, nTimesteps) \<longleftrightarrow>
     dimension c ''number_of_volumes'' = Some nVolumes \<and>
     dimension c ''number_of_vertices'' = Some nVertices \<and>
     dimension c ''number_of_points'' = Some nPoints \<and>
     dimension c ''number_of_timesteps'' = Some nTimesteps"
  by (auto simp: get_dimensions_def dimension_def split: option.splits)

lemma get_dimensions_None:
  "get_dimensions c = None \<longleftrightarrow>
     dimension c ''number_of_volumes'' = None \<or>
     dimension c ''number_of_vertices'' = None \<or>
     dimension c ''number_of_points'' = None \<or>
     dimension c ''number_of_timesteps'' = None"
  by (auto simp: get_dimensions_def dimension_def split: option.splits)

lemma get_variables_Some:
  "get_variables c = Some (xid, yid, zid, volumesid, timeid, stageid) \<longleftrightarrow>
     nc_inq_varid c ''x'' = Some xid \<and> nc_inq_varid c ''y'' = Some yid \<and>
     nc_inq_varid c ''z'' = Some zid \<and> nc_inq_varid c ''volumes'' = Some volumesid \<and>
     nc_inq_varid c ''time'' = Some timeid \<and> nc_inq_varid c ''stage'' = Some stageid"
  by (auto simp: get_variables_def split: option.splits)

lemma get_variables_None:
  "get_variables c = None \<longleftrightarrow>
     nc_inq_varid c ''x'' = None \<or> nc_inq_varid c ''y'' = None \<or>
     nc_inq_varid c ''z'' = None \<or> nc_inq_varid c ''volumes'' = None \<or>
     nc_inq_varid c ''time'' = None \<or> nc_inq_varid c ''stage'' = None"
  by (auto simp: get_variables_def split: option.splits)

lemma depth_output_Some:
  assumes "depth_output ops c stageid nPoints nVolumes times_buf elev elements t = Some to"
  obtains stage where
    "unchecked_read (nc_get_vars_float c stageid (t, 0) (1, nPoints)) (replicate nPoints (fzero ops)) = Some stage"
    and "out_time to = fdiv_double ops (times_buf ! t) 3600"
    and "out_values to = map (\<lambda>j. fsub ops (stage ! j) (elev ! j)) [0..<nPoints]"
    and "out_valuesV to = []"
    and "depth_active ops nVolumes elements (out_values to) (replicate nVolumes False) = Some (out_active to)"
proof -
  from assms obtain stage active where
    s: "unchecked_read (nc_get_vars_float c stageid (t, 0) (1, nPoints)) (replicate nPoints (fzero ops)) = Some stage"
    and a: "depth_active ops nVolumes elements
              (for_loop 0 nPoints (\<lambda>j values. values[j := fsub ops (values ! j) (elev ! j)]) stage)
              (replicate nVolumes False) = Some active"
    and t: "to = (Output_init ops nPoints nVolumes False (fdiv_double ops (times_buf ! t) 3600))
                   \<lparr>out_values := for_loop 0 nPoints (\<lambda>j values. values[j := fsub ops (values ! j) (elev ! j)]) stage,
                    out_active := active\<rparr>"
    by (auto simp: depth_output_def Let_def Output_init_def split: option.splits)
  have "length stage = nPoints"
    using unchecked_read_length [OF s] by simp
  then have v: "for_loop 0 nPoints (\<lambda>j values. values[j := fsub ops (values ! j) (elev ! j)]) stage =
      map (\<lambda>j. fsub ops (stage ! j) (elev ! j)) [0..<nPoints]"
    by (rule depth_values_eq)
  show ?thesis
    using s a t v by (intro that [of stage]) (simp_all add: Output_init_def)
qed

subsection \<open>The momentum loop\<close>

lemma momentum_fill_eq:
  assumes "length vV0 = nPoints" and "length v0 = nPoints"
  shows "for_loop 0 nPoints
           (\<lambda>i (mtoValuesV, mtoValues).
              let mtoValuesV' = mtoValuesV[i := (valuesX ! i, valuesY ! i)]
              in (mtoValuesV', mtoValues[i := float2D_length ops (mtoValuesV' ! i)]))
           (vV0, v0) =
         (map (\<lambda>i. (valuesX ! i, valuesY ! i)) [0..<nPoints],
          map (\<lambda>i. float2D_length ops (valuesX ! i, valuesY ! i)) [0..<nPoints])"
proof -
  let ?body = "\<lambda>i (mtoValuesV, mtoValues).
              let mtoValuesV' = mtoValuesV[i := (valuesX ! i, valuesY ! i)]
              in (mtoValuesV', mtoValues[i := float2D_length ops (mtoValuesV' ! i)])"
  let ?P = "\<lambda>i st. length (fst st) = nPoints \<and> length (snd st) = nPoints \<and>
              (\<forall>j<i. fst st ! j = (valuesX ! j, valuesY ! j) \<and>
                      snd st ! j = float2D_length ops (valuesX ! j, valuesY ! j))"
  have "?P nPoints (for_loop 0 nPoints ?body (vV0, v0))"
  proof (rule for_loop_invariant [where P = ?P])
    show "?P 0 (vV0, v0)" using assms by simp
  next
    fix i st
    assume "i < nPoints" and "?P i st"
    then show "?P (Suc i) (?body i st)"
      by (cases st) (simp add: Let_def nth_list_update less_Suc_eq)
  qed
  then have "fst (for_loop 0 nPoints ?body (vV0, v0)) = map (\<lambda>i. (valuesX ! i, valuesY ! i)) [0..<nPoints]"
    and "snd (for_loop 0 nPoints ?body (vV0, v0)) =
           map (\<lambda>i. float2D_length ops (valuesX ! i, valuesY ! i)) [0..<nPoints]"
    by (auto intro!: nth_equalityI)
  then show ?thesis
    by (simp add: prod_eq_iff)
qed

lemma momentum_step_Some:
  assumes "momentum_step ops c momentumxid momentumyid nPoints nVolumes times_buf ds_outs t st = Some st'"
    and "length (fst (snd st)) = nPoints" and "length (snd (snd st)) = nPoints"
  shows "\<exists>out. fst st' = fst st @ [out] \<and>
           momentum_output_ok ops c momentumxid momentumyid nPoints times_buf ds_outs t out"
    and "length (fst (snd st')) = nPoints" and "length (snd (snd st')) = nPoints"
proof -
  let ?mto = "(Output_init ops nPoints nVolumes True (fdiv_double ops (times_buf ! t) 3600))
                  \<lparr>out_active := out_active (ds_outs ! t)\<rparr>"
  from assms(1) obtain valuesX valuesY where
    x: "unchecked_read (nc_get_vars_float c momentumxid (t, 0) (1, nPoints)) (fst (snd st)) = Some valuesX"
    and y: "unchecked_read (nc_get_vars_float c momentumyid (t, 0) (1, nPoints)) (snd (snd st)) = Some valuesY"
    and st': "st' = (let filled = for_loop 0 nPoints
                   (\<lambda>i (mtoValuesV, mtoValues).
                      let mtoValuesV' = mtoValuesV[i := (valuesX ! i, valuesY ! i)]
                      in (mtoValuesV', mtoValues[i := float2D_length ops (mtoValuesV' ! i)]))
                   (out_valuesV ?mto, out_values ?mto)
             in (fst st @ [?mto\<lparr>out_values := snd filled, out_valuesV := fst filled\<rparr>],
                      valuesX, valuesY))"
    by (auto simp: momentum_step_def Let_def split: option.splits)
  have lx: "length valuesX = nPoints" and ly: "length valuesY = nPoints"
    using unchecked_read_length [OF x] unchecked_read_length [OF y] assms(2,3) by simp_all
  have fill: "for_loop 0 nPoints
                   (\<lambda>i (mtoValuesV, mtoValues).
                      let mtoValuesV' = mtoValuesV[i := (valuesX ! i, valuesY ! i)]
                      in (mtoValuesV', mtoValues[i := float2D_length ops (mtoValuesV' ! i)]))
                   (out_valuesV ?mto, out_values ?mto) =
         (map (\<lambda>i. (valuesX ! i, valuesY ! i)) [0..<nPoints],
          map (\<lambda>i. float2D_length ops (valuesX ! i, valuesY ! i)) [0..<nPoints])"
    by (rule momentum_fill_eq) (simp_all add: Output_init_def)
  let ?out = "?mto\<lparr>out_values := map (\<lambda>i. float2D_length ops (valuesX ! i, valuesY ! i)) [0..<nPoints],
                    out_valuesV := map (\<lambda>i. (valuesX ! i, valuesY ! i)) [0..<nPoints]\<rparr>"
  have eq: "st' = (fst st @ [?out], valuesX, valuesY)"
    using st' fill by (simp add: Let_def)
  have ok: "momentum_output_ok ops c momentumxid momentumyid nPoints times_buf ds_outs t ?out"
    unfolding momentum_output_ok_def
  proof (intro conjI allI impI)
    fix xrow yrow n
    assume xr: "nc_get_vars_float c momentumxid (t, 0) (1, nPoints) = Some xrow"
      and yr: "nc_get_vars_float c momentumyid (t, 0) (1, nPoints) = Some yrow"
      and n: "n < length xrow" "n < length yrow"
    have "valuesX ! n = xrow ! n" and "valuesY ! n = yrow ! n" and "n < nPoints"
      using x y xr yr n unchecked_read_nth [of xrow _ valuesX n] unchecked_read_nth [of yrow _ valuesY n]
        unchecked_read_bound [of xrow "fst (snd st)" valuesX] assms(2)
      by simp_all
    then show "out_valuesV ?out ! n = (xrow ! n, yrow ! n)"
      and "out_values ?out ! n = float2D_length ops (xrow ! n, yrow ! n)"
      by simp_all
  qed (simp_all add: Output_init_def)
  show "\<exists>out. fst st' = fst st @ [out] \<and>
           momentum_output_ok ops c momentumxid momentumyid nPoints times_buf ds_outs t out"
    using eq ok by (intro exI [of _ ?out]) simp
  show "length (fst (snd st')) = nPoints" and "length (snd (snd st')) = nPoints"
    using eq lx ly by simp_all
qed

lemma momentum_outputs_Some:
  assumes "momentum_outputs ops c momentumxid momentumyid nPoints nVolumes nTimesteps times_buf ds_outs = Some outs"
  shows "length outs = nTimesteps \<and>
         (\<forall>t<nTimesteps. momentum_output_ok ops c momentumxid momentumyid nPoints times_buf ds_outs t (outs ! t))"
proof -
  let ?P = "\<lambda>i st. length (fst st) = i \<and> length (fst (snd st)) = nPoints \<and> length (snd (snd st)) = nPoints \<and>
     (\<forall>t<i. momentum_output_ok ops c momentumxid momentumyid nPoints times_buf ds_outs t (fst st ! t))"
  from assms obtain st' where
    run: "for_loop_ub 0 nTimesteps
          (momentum_step ops c momentumxid momentumyid nPoints nVolumes times_buf ds_outs)
          ([], replicate nPoints (fzero ops), replicate nPoints (fzero ops)) = Some st'"
    and outs: "outs = fst st'"
    by (auto simp: momentum_outputs_def)
  have "?P nTimesteps st'"
    using run
  proof (rule for_loop_ub_invariant [where P = ?P])
    show "?P 0 ([], replicate nPoints (fzero ops), replicate nPoints (fzero ops))"
      by simp
  next
    fix i s s'
    assume i: "i < nTimesteps" and P: "?P i s"
      and step: "momentum_step ops c momentumxid momentumyid nPoints nVolumes times_buf ds_outs i s = Some s'"
    from P have lx: "length (fst (snd s)) = nPoints" and ly: "length (snd (snd s)) = nPoints"
      by simp_all
    from momentum_step_Some(1) [OF step lx ly] obtain out where
      o: "fst s' = fst s @ [out]"
      and ok: "momentum_output_ok ops c momentumxid momentumyid nPoints times_buf ds_outs i out"
      by blast
    show "?P (Suc i) s'"
      using P o ok momentum_step_Some(2) [OF step lx ly] momentum_step_Some(3) [OF step lx ly]
      by (auto simp: nth_append less_Suc_eq)
  qed
  then show ?thesis
    using outs by simp
qed

subsection \<open>What a returned mesh is made of\<close>

lemma build_mesh_Some:
  assumes "build_mesh ops fileName c nVolumes nPoints nTimesteps timeid stageid px py pz pvolumes =
             Returned st (Some mesh)"
    and "length pz = nPoints"
  obtains times_buf outs mds where
    "st = Err_None"
    and "3 * nVolumes \<le> INT_MAX" and "nTimesteps \<le> INT_MAX"
    and "unchecked_read (nc_get_var_float c timeid) (replicate nTimesteps (fzero ops)) = Some times_buf"
    and "depth_outputs ops c stageid nPoints nVolumes nTimesteps times_buf pz (mesh_elements mesh) = Some outs"
    and "load_momentum ops fileName c nPoints nVolumes nTimesteps times_buf outs = Some mds"
    and "mesh_nodes mesh =
           map (\<lambda>i. \<lparr>node_id = int i,
                       node_x = fadd ops (px ! i) (get_corner ops c ''xllcorner''),
                       node_y = fadd ops (py ! i) (get_corner ops c ''yllcorner'')\<rparr>) [0..<nPoints]"
    and "mesh_elements mesh =
           map (\<lambda>i. \<lparr>elem_id = int i, elem_eType = E3T,
                       elem_p = [pvolumes ! (3 * i + 0), pvolumes ! (3 * i + 1), pvolumes ! (3 * i + 2)]\<rparr>)
             [0..<nVolumes]"
    and "mesh_dataSets mesh =
           [\<lparr>ds_fileName = fileName, ds_type = Bed, ds_name = ''Bed Elevation'',
              ds_isTimeVarying = False,
              ds_outputs = [\<lparr>out_time = fzero ops, out_values = pz, out_valuesV = [],
                              out_active = replicate nVolumes True\<rparr>]\<rparr>,
            \<lparr>ds_fileName = fileName, ds_type = Scalar, ds_name = ''Depth'',
              ds_isTimeVarying = True, ds_outputs = outs\<rparr>] @ mds"
proof -
  have nodes: "load_nodes ops nPoints px py pz (get_corner ops c ''xllcorner'') (get_corner ops c ''yllcorner'')
           (replicate nPoints (fzero ops)) =
         (map (\<lambda>i. \<lparr>node_id = int i,
                       node_x = fadd ops (px ! i) (get_corner ops c ''xllcorner''),
                       node_y = fadd ops (py ! i) (get_corner ops c ''yllcorner'')\<rparr>) [0..<nPoints], pz)"
    using assms(2) by (intro load_nodes_eq) simp_all
  from assms(1) show ?thesis
    unfolding build_mesh_def Let_def Output_init_def
    by (simp add: nodes load_elements_eq split: if_splits option.splits)
      (rule that, auto)
qed

lemma loadSWW_Some:
  assumes "loadSWW ops fileName c = Returned st (Some mesh)"
  obtains nVolumes nPoints nTimesteps timeid stageid xs ys zs pvolumes where
    "nc_open c"
    and "dimension c ''number_of_volumes'' = Some nVolumes"
    and "dimension c ''number_of_vertices'' = Some 3"
    and "dimension c ''number_of_points'' = Some nPoints"
    and "dimension c ''number_of_timesteps'' = Some nTimesteps"
    and "nc_inq_varid c ''time'' = Some timeid"
    and "nc_inq_varid c ''stage'' = Some stageid"
    and "float_variable c ''x'' = Some xs" and "length xs \<le> nPoints"
    and "float_variable c ''y'' = Some ys" and "length ys \<le> nPoints"
    and "float_variable c ''z'' = Some zs" and "length zs \<le> nPoints"
    and "int_variable c ''volumes'' = Some pvolumes" and "length pvolumes = 3 * nVolumes"
    and "nPoints \<le> INT_MAX"
    and "build_mesh ops fileName c nVolumes nPoints nTimesteps timeid stageid
           (xs @ replicate (nPoints - length xs) (fzero ops))
           (ys @ replicate (nPoints - length ys) (fzero ops))
           (zs @ replicate (nPoints - length zs) (fzero ops)) pvolumes = Returned st (Some mesh)"
proof -
  from assms have o: "nc_open c"
    by (auto simp: loadSWW_def fail_UnknownFormat_def split: if_splits)
  from assms o obtain nVolumes nVertices nPoints nTimesteps where
    d: "get_dimensions c = Some (nVolumes, nVertices, nPoints, nTimesteps)"
    by (cases "get_dimensions c") (auto simp: loadSWW_def fail_UnknownFormat_def)
  from assms o d have v3: "nVertices = 3"
    by (auto simp: loadSWW_def fail_UnknownFormat_def split: if_splits)
  from assms o d v3 obtain xid yid zid volumesid timeid stageid where
    v: "get_variables c = Some (xid, yid, zid, volumesid, timeid, stageid)"
    by (cases "get_variables c") (auto simp: loadSWW_def fail_UnknownFormat_def)
  from assms o d v3 v have rest:
    "(if INT_MAX < nPoints then Undefined_Behaviour
      else
      case nc_get_var_float c xid of None \<Rightarrow> fail_UnknownFormat | Some xs \<Rightarrow>
      case read_into (replicate nPoints (fzero ops)) xs of None \<Rightarrow> Undefined_Behaviour | Some px \<Rightarrow>
      case nc_get_var_float c yid of None \<Rightarrow> fail_UnknownFormat | Some ys \<Rightarrow>
      case read_into (replicate nPoints (fzero ops)) ys of None \<Rightarrow> Undefined_Behaviour | Some py \<Rightarrow>
      case nc_get_var_float c zid of None \<Rightarrow> fail_UnknownFormat | Some zs \<Rightarrow>
      case read_into (replicate nPoints (fzero ops)) zs of None \<Rightarrow> Undefined_Behaviour | Some pz \<Rightarrow>
      case nc_get_var_int c volumesid of None \<Rightarrow> fail_UnknownFormat | Some pvolumes \<Rightarrow>
      if length pvolumes \<noteq> 3 * nVolumes then Undefined_Behaviour
      else build_mesh ops fileName c nVolumes nPoints nTimesteps timeid stageid px py pz pvolumes)
     = Returned st (Some mesh)"
    by (simp add: loadSWW_def)
  then obtain xs ys zs pvolumes where
    "nPoints \<le> INT_MAX"
    "nc_get_var_float c xid = Some xs" "length xs \<le> nPoints"
    "nc_get_var_float c yid = Some ys" "length ys \<le> nPoints"
    "nc_get_var_float c zid = Some zs" "length zs \<le> nPoints"
    "nc_get_var_int c volumesid = Some pvolumes" "length pvolumes = 3 * nVolumes"
    "build_mesh ops fileName c nVolumes nPoints nTimesteps timeid stageid
           (xs @ replicate (nPoints - length xs) (fzero ops))
           (ys @ replicate (nPoints - length ys) (fzero ops))
           (zs @ replicate (nPoints - length zs) (fzero ops)) pvolumes = Returned st (Some mesh)"
    by (auto simp: fail_UnknownFormat_def read_into_replicate split: if_splits option.splits)
  moreover from v have "nc_inq_varid c ''x'' = Some xid" "nc_inq_varid c ''y'' = Some yid"
    "nc_inq_varid c ''z'' = Some zid" "nc_inq_varid c ''volumes'' = Some volumesid"
    "nc_inq_varid c ''time'' = Some timeid" "nc_inq_varid c ''stage'' = Some stageid"
    by (simp_all add: get_variables_Some)
  moreover from d v3 have "dimension c ''number_of_volumes'' = Some nVolumes"
    "dimension c ''number_of_vertices'' = Some 3"
    "dimension c ''number_of_points'' = Some nPoints"
    "dimension c ''number_of_timesteps'' = Some nTimesteps"
    by (simp_all add: get_dimensions_Some)
  ultimately show ?thesis
    using o by (intro that [of nVolumes nPoints nTimesteps timeid stageid xs ys zs pvolumes])
      (simp_all add: float_variable_def int_variable_def)
qed

lemma loadSWW_mesh:
  assumes "loadSWW ops fileName c = Returned st (Some mesh)"
  obtains nVolumes nPoints nTimesteps timeid stageid xs ys zs pvolumes times_buf outs mds where
    "st = Err_None"
    and "dimension c ''number_of_volumes'' = Some nVolumes"
    and "dimension c ''number_of_points'' = Some nPoints"
    and "dimension c ''number_of_timesteps'' = Some nTimesteps"
    and "nc_inq_varid c ''time'' = Some timeid"
    and "nc_inq_varid c ''stage'' = Some stageid"
    and "float_variable c ''x'' = Some xs" and "length xs \<le> nPoints"
    and "float_variable c ''y'' = Some ys" and "length ys \<le> nPoints"
    and "float_variable c ''z'' = Some zs" and "length zs \<le> nPoints"
    and "int_variable c ''volumes'' = Some pvolumes" and "length pvolumes = 3 * nVolumes"
    and "unchecked_read (nc_get_var_float c timeid) (replicate nTimesteps (fzero ops)) = Some times_buf"
    and "depth_outputs ops c stageid nPoints nVolumes nTimesteps times_buf
           (zs @ replicate (nPoints - length zs) (fzero ops)) (mesh_elements mesh) = Some outs"
    and "load_momentum ops fileName c nPoints nVolumes nTimesteps times_buf outs = Some mds"
    and "mesh_nodes mesh =
           map (\<lambda>i. \<lparr>node_id = int i,
                       node_x = fadd ops ((xs @ replicate (nPoints - length xs) (fzero ops)) ! i)
                                  (get_corner ops c ''xllcorner''),
                       node_y = fadd ops ((ys @ replicate (nPoints - length ys) (fzero ops)) ! i)
                                  (get_corner ops c ''yllcorner'')\<rparr>) [0..<nPoints]"
    and "mesh_elements mesh =
           map (\<lambda>i. \<lparr>elem_id = int i, elem_eType = E3T,
                       elem_p = [pvolumes ! (3 * i + 0), pvolumes ! (3 * i + 1), pvolumes ! (3 * i + 2)]\<rparr>)
             [0..<nVolumes]"
    and "mesh_dataSets mesh =
           [\<lparr>ds_fileName = fileName, ds_type = Bed, ds_name = ''Bed Elevation'',
              ds_isTimeVarying = False,
              ds_outputs = [\<lparr>out_time = fzero ops,
                              out_values = zs @ replicate (nPoints - length zs) (fzero ops),
                              out_valuesV = [],
                              out_active = replicate nVolumes True\<rparr>]\<rparr>,
            \<lparr>ds_fileName = fileName, ds_type = Scalar, ds_name = ''Depth'',
              ds_isTimeVarying = True, ds_outputs = outs\<rparr>] @ mds"
proof -
  from assms obtain nVolumes nPoints nTimesteps timeid stageid xs ys zs pvolumes where l:
    "dimension c ''number_of_volumes'' = Some nVolumes"
    "dimension c ''number_of_points'' = Some nPoints"
    "dimension c ''number_of_timesteps'' = Some nTimesteps"
    "nc_inq_varid c ''time'' = Some timeid"
    "nc_inq_varid c ''stage'' = Some stageid"
    "float_variable c ''x'' = Some xs" "length xs \<le> nPoints"
    "float_variable c ''y'' = Some ys" "length ys \<le> nPoints"
    "float_variable c ''z'' = Some zs" "length zs \<le> nPoints"
    "int_variable c ''volumes'' = Some pvolumes" "length pvolumes = 3 * nVolumes"
    and b: "build_mesh ops fileName c nVolumes nPoints nTimesteps timeid stageid
           (xs @ replicate (nPoints - length xs) (fzero ops))
           (ys @ replicate (nPoints - length ys) (fzero ops))
           (zs @ replicate (nPoints - length zs) (fzero ops)) pvolumes = Returned st (Some mesh)"
    by (rule loadSWW_Some)
  have len: "length (zs @ replicate (nPoints - length zs) (fzero ops)) = nPoints"
    using l(11) by simp
  show ?thesis
    by (rule build_mesh_Some [OF b len]) (rule that [OF _ l(1-13)]; assumption)
qed

lemma load_momentum_Some:
  assumes "load_momentum ops fileName c nPoints nVolumes nTimesteps times_buf ds_outs = Some mds"
  shows "(nc_inq_varid c ''xmomentum'' = None \<or> nc_inq_varid c ''ymomentum'' = None) \<and> mds = [] \<or>
         (\<exists>momentumxid momentumyid outs.
            nc_inq_varid c ''xmomentum'' = Some momentumxid \<and>
            nc_inq_varid c ''ymomentum'' = Some momentumyid \<and>
            momentum_outputs ops c momentumxid momentumyid nPoints nVolumes nTimesteps times_buf ds_outs = Some outs \<and>
            mds = [\<lparr>ds_fileName = fileName, ds_type = Vector, ds_name = ''Momentum'',
                     ds_isTimeVarying = True, ds_outputs = outs\<rparr>])"
  using assms by (auto simp: load_momentum_def split: option.splits)

lemma depth_dataset:
  assumes "loadSWW ops fileName c = Returned st (Some mesh)"
    and "dimension c ''number_of_points'' = Some nPoints"
    and "dimension c ''number_of_volumes'' = Some nVolumes"
    and "dimension c ''number_of_timesteps'' = Some nTimesteps"
  obtains timeid stageid zs times_buf where
    "nc_inq_varid c ''time'' = Some timeid"
    and "nc_inq_varid c ''stage'' = Some stageid"
    and "float_variable c ''z'' = Some zs" and "length zs \<le> nPoints"
    and "unchecked_read (nc_get_var_float c timeid) (replicate nTimesteps (fzero ops)) = Some times_buf"
    and "length (mesh_elements mesh) = nVolumes"
    and "ds_type (mesh_dataSets mesh ! 1) = Scalar"
    and "ds_name (mesh_dataSets mesh ! 1) = ''Depth''"
    and "ds_isTimeVarying (mesh_dataSets mesh ! 1)"
    and "length (ds_outputs (mesh_dataSets mesh ! 1)) = nTimesteps"
    and "\<And>t. t < nTimesteps \<Longrightarrow>
           depth_output ops c stageid nPoints nVolumes times_buf
             (zs @ replicate (nPoints - length zs) (fzero ops)) (mesh_elements mesh) t =
           Some (ds_outputs (mesh_dataSets mesh ! 1) ! t)"
    and "load_momentum ops fileName c nPoints nVolumes nTimesteps times_buf
           (ds_outputs (mesh_dataSets mesh ! 1)) = Some (drop 2 (mesh_dataSets mesh))"
  using assms(1)
proof (rule loadSWW_mesh)
  fix nVolumes' nPoints' nTimesteps' timeid stageid zs pvolumes times_buf outs mds
  assume "dimension c ''number_of_volumes'' = Some nVolumes'"
    and "dimension c ''number_of_points'' = Some nPoints'"
    and "dimension c ''number_of_timesteps'' = Some nTimesteps'"
    and ids: "nc_inq_varid c ''time'' = Some timeid" "nc_inq_varid c ''stage'' = Some stageid"
    and z: "float_variable c ''z'' = Some zs" "length zs \<le> nPoints'"
    and tb: "unchecked_read (nc_get_var_float c timeid) (replicate nTimesteps' (fzero ops)) = Some times_buf"
    and d: "depth_outputs ops c stageid nPoints' nVolumes' nTimesteps' times_buf
           (zs @ replicate (nPoints' - length zs) (fzero ops)) (mesh_elements mesh) = Some outs"
    and m: "load_momentum ops fileName c nPoints' nVolumes' nTimesteps' times_buf outs = Some mds"
    and elems: "mesh_elements mesh =
           map (\<lambda>i. \<lparr>elem_id = int i, elem_eType = E3T,
                       elem_p = [pvolumes ! (3 * i + 0), pvolumes ! (3 * i + 1), pvolumes ! (3 * i + 2)]\<rparr>)
             [0..<nVolumes']"
    and ds: "mesh_dataSets mesh =
           [\<lparr>ds_fileName = fileName, ds_type = Bed, ds_name = ''Bed Elevation'',
              ds_isTimeVarying = False,
              ds_outputs = [\<lparr>out_time = fzero ops,
                              out_values = zs @ replicate (nPoints' - length zs) (fzero ops),
                              out_valuesV = [],
                              out_active = replicate nVolumes' True\<rparr>]\<rparr>,
            \<lparr>ds_fileName = fileName, ds_type = Scalar, ds_name = ''Depth'',
              ds_isTimeVarying = True, ds_outputs = outs\<rparr>] @ mds"
  with assms(2-4) have eq: "nVolumes' = nVolumes" "nPoints' = nPoints" "nTimesteps' = nTimesteps"
    by simp_all
  have outs: "ds_outputs (mesh_dataSets mesh ! 1) = outs" and mds: "drop 2 (mesh_dataSets mesh) = mds"
    unfolding ds by simp_all
  have le: "length (mesh_elements mesh) = nVolumes"
    unfolding elems eq by simp
  from depth_outputs_Some [OF d] have
    "length outs = nTimesteps"
    "\<And>t. t < nTimesteps \<Longrightarrow>
           depth_output ops c stageid nPoints nVolumes times_buf
             (zs @ replicate (nPoints - length zs) (fzero ops)) (mesh_elements mesh) t = Some (outs ! t)"
    unfolding eq by simp_all
  then show ?thesis
    using ids z tb m le unfolding eq
    by (intro that [of timeid stageid zs times_buf]) (simp_all add: outs mds, simp_all add: ds)
qed

lemma build_mesh_no_timesteps:
  assumes "3 * nVolumes \<le> INT_MAX"
    and "nc_get_var_float c timeid = None \<or> nc_get_var_float c timeid = Some []"
  shows "\<exists>nodes elements bed.
           build_mesh ops fileName c nVolumes nPoints 0 timeid stageid px py pz pvolumes =
             Returned Err_None
               (Some \<lparr>mesh_nodes = nodes, mesh_elements = elements,
                       mesh_dataSets =
                         [bed, \<lparr>ds_fileName = fileName, ds_type = Scalar, ds_name = ''Depth'',
                                 ds_isTimeVarying = True, ds_outputs = []\<rparr>] @
                         (if nc_inq_varid c ''xmomentum'' \<noteq> None \<and> nc_inq_varid c ''ymomentum'' \<noteq> None
                          then [\<lparr>ds_fileName = fileName, ds_type = Vector, ds_name = ''Momentum'',
                                  ds_isTimeVarying = True, ds_outputs = []\<rparr>]
                          else [])\<rparr>)"
proof -
  have t: "unchecked_read (nc_get_var_float c timeid) (replicate 0 (fzero ops)) = Some []"
    using assms(2) by (auto simp: unchecked_read_def read_into_def)
  have d: "depth_outputs ops c stageid nPoints nVolumes 0 [] elev elements = Some []" for elev elements
    by (simp add: depth_outputs_def for_loop_ub_done)
  have m: "load_momentum ops fileName c nPoints nVolumes 0 [] [] =
             Some (if nc_inq_varid c ''xmomentum'' \<noteq> None \<and> nc_inq_varid c ''ymomentum'' \<noteq> None
                   then [\<lparr>ds_fileName = fileName, ds_type = Vector, ds_name = ''Momentum'',
                           ds_isTimeVarying = True, ds_outputs = []\<rparr>]
                   else [])"
    by (simp add: load_momentum_def momentum_outputs_def for_loop_ub_done split: option.splits)
  show ?thesis
    using assms(1) unfolding build_mesh_def Let_def
    by (simp add: t d m del: replicate.simps)
qed

subsection \<open>Running the loader on the sample containers\<close>

lemma replicate_numeral: "replicate (numeral k) x = x # replicate (pred_numeral k) x"
  by (simp add: numeral_eq_Suc)

lemmas loader_eval =
  for_loop_step for_loop_done for_loop_ub_step for_loop_ub_done
  loadSWW_def build_mesh_def get_dimensions_def get_variables_def get_corner_def
  load_nodes_def load_elements_def depth_active_def depth_output_def depth_outputs_def
  momentum_step_def momentum_outputs_def load_momentum_def read_into_def unchecked_read_def
  Output_init_def float2D_length_def Node_default_def Element_default_def INT_MAX_def
  DEPTH_THRESHOLD_def fail_UnknownFormat_def exact_ops_def Let_def replicate_numeral

lemmas lookup_eval = dimension_def float_variable_def int_variable_def float_row_def

lemma sample_loads: "loadSWW exact_ops ''a.sww'' sample = Returned Err_None (Some sample_mesh)"
  by (simp add: loader_eval sample_def sample_mesh_def)

lemma sample_dangling_loads:
  "loadSWW exact_ops ''b.sww'' sample_dangling = Returned Err_None (Some sample_dangling_mesh)"
  by (simp add: loader_eval sample_dangling_def sample_dangling_mesh_def)

lemma sample_dimensions:
  "dimension sample ''number_of_points'' = Some 4"
  "dimension sample ''number_of_volumes'' = Some 2"
  "dimension sample ''number_of_timesteps'' = Some 1"
  by (simp_all add: sample_def lookup_eval)

subsection \<open>Null results and the momentum dataset\<close>

lemma build_mesh_not_null:
  "build_mesh ops fileName c nVolumes nPoints nTimesteps timeid stageid px py pz pvolumes \<noteq>
     Returned st None"
  by (simp add: build_mesh_def Let_def split: option.splits)

lemma loadSWW_null_causes:
  assumes "loadSWW ops fileName c = Returned st None"
  shows "st = Err_UnknownFormat \<and>
         (\<not> nc_open c \<or> get_dimensions c = None \<or>
          dimension c ''number_of_vertices'' \<noteq> Some 3 \<or> get_variables c = None \<or>
          float_variable c ''x'' = None \<or> float_variable c ''y'' = None \<or>
          float_variable c ''z'' = None \<or> int_variable c ''volumes'' = None)"
proof (cases "nc_open c")
  case False
  with assms show ?thesis
    by (simp add: loadSWW_def fail_UnknownFormat_def)
next
  case o: True
  show ?thesis
  proof (cases "get_dimensions c")
    case None
    with assms o show ?thesis
      by (simp add: loadSWW_def fail_UnknownFormat_def)
  next
    case (Some d)
    obtain nVolumes nVertices nPoints nTimesteps where
      d: "get_dimensions c = Some (nVolumes, nVertices, nPoints, nTimesteps)"
      using Some by (cases d) auto
    from d have dv: "dimension c ''number_of_vertices'' = Some nVertices"
      by (simp add: get_dimensions_Some)
    show ?thesis
    proof (cases "nVertices = 3")
      case False
      with assms o d dv show ?thesis
        by (simp add: loadSWW_def fail_UnknownFormat_def)
    next
      case v3: True
      show ?thesis
      proof (cases "get_variables c")
        case None
        with assms o d v3 show ?thesis
          by (simp add: loadSWW_def fail_UnknownFormat_def)
      next
        case (Some v)
        obtain xid yid zid volumesid timeid stageid where
          v: "get_variables c = Some (xid, yid, zid, volumesid, timeid, stageid)"
          using Some by (cases v) auto
        from v have ids: "nc_inq_varid c ''x'' = Some xid" "nc_inq_varid c ''y'' = Some yid"
          "nc_inq_varid c ''z'' = Some zid" "nc_inq_varid c ''volumes'' = Some volumesid"
          by (simp_all add: get_variables_Some)
        from assms o d v3 v have
          "(if INT_MAX < nPoints then Undefined_Behaviour
            else
            case nc_get_var_float c xid of None \<Rightarrow> fail_UnknownFormat | Some xs \<Rightarrow>
            case read_into (replicate nPoints (fzero ops)) xs of None \<Rightarrow> Undefined_Behaviour | Some px \<Rightarrow>
            case nc_get_var_float c yid of None \<Rightarrow> fail_UnknownFormat | Some ys \<Rightarrow>
            case read_into (replicate nPoints (fzero ops)) ys of None \<Rightarrow> Undefined_Behaviour | Some py \<Rightarrow>
            case nc_get_var_float c zid of None \<Rightarrow> fail_UnknownFormat | Some zs \<Rightarrow>
            case read_into (replicate nPoints (fzero ops)) zs of None \<Rightarrow> Undefined_Behaviour | Some pz \<Rightarrow>
            case nc_get_var_int c volumesid of None \<Rightarrow> fail_UnknownFormat | Some pvolumes \<Rightarrow>
            if length pvolumes \<noteq> 3 * nVolumes then Undefined_Behaviour
            else build_mesh ops fileName c nVolumes nPoints nTimesteps timeid stageid px py pz pvolumes)
           = Returned st None"
          by (simp add: loadSWW_def)
        then have "st = Err_UnknownFormat \<and>
           (nc_get_var_float c xid = None \<or> nc_get_var_float c yid = None \<or>
            nc_get_var_float c zid = None \<or> nc_get_var_int c volumesid = None)"
          by (auto simp: fail_UnknownFormat_def build_mesh_not_null split: if_splits option.splits)
        then show ?thesis
          by (auto simp: float_variable_def int_variable_def ids)
      qed
    qed
  qed
qed

lemma loadSWW_mesh_status:
  assumes "loadSWW ops fileName c = Returned st (Some mesh)"
  shows "st = Err_None"
  using assms by (rule loadSWW_mesh)

lemma momentum_dataset_of_mesh:
  assumes "loadSWW ops fileName c = Returned st (Some mesh)"
    and "dimension c ''number_of_points'' = Some nPoints"
    and "dimension c ''number_of_timesteps'' = Some nTimesteps"
  shows "((\<exists>ds \<in> set (mesh_dataSets mesh). ds_name ds = ''Momentum'') \<longleftrightarrow>
            nc_inq_varid c ''xmomentum'' \<noteq> None \<and> nc_inq_varid c ''ymomentum'' \<noteq> None) \<and>
         length (mesh_dataSets mesh) =
           (if nc_inq_varid c ''xmomentum'' \<noteq> None \<and> nc_inq_varid c ''ymomentum'' \<noteq> None then 3 else 2) \<and>
         (nc_inq_varid c ''xmomentum'' \<noteq> None \<and> nc_inq_varid c ''ymomentum'' \<noteq> None \<longrightarrow>
            ds_name (mesh_dataSets mesh ! 2) = ''Momentum'' \<and>
            ds_type (mesh_dataSets mesh ! 2) = Vector \<and>
            ds_isTimeVarying (mesh_dataSets mesh ! 2) \<and>
            length (ds_outputs (mesh_dataSets mesh ! 2)) = nTimesteps \<and>
            (\<forall>t<nTimesteps.
               out_active (ds_outputs (mesh_dataSets mesh ! 2) ! t) =
                 out_active (ds_outputs (mesh_dataSets mesh ! 1) ! t) \<and>
               (\<forall>xrow yrow.
                  float_row c ''xmomentum'' t nPoints = Some xrow \<longrightarrow>
                  float_row c ''ymomentum'' t nPoints = Some yrow \<longrightarrow>
                  (\<forall>n. n < length xrow \<longrightarrow> n < length yrow \<longrightarrow>
                     out_valuesV (ds_outputs (mesh_dataSets mesh ! 2) ! t) ! n = (xrow ! n, yrow ! n) \<and>
                     out_values (ds_outputs (mesh_dataSets mesh ! 2) ! t) ! n =
                       fsqrt ops (fadd ops (fmul ops (xrow ! n) (xrow ! n))
                                           (fmul ops (yrow ! n) (yrow ! n)))))))"
  using assms(1)
proof (rule loadSWW_mesh)
  fix nVolumes nPoints' nTimesteps' zs times_buf outs mds
  assume "dimension c ''number_of_points'' = Some nPoints'"
    and "dimension c ''number_of_timesteps'' = Some nTimesteps'"
    and m: "load_momentum ops fileName c nPoints' nVolumes nTimesteps' times_buf outs = Some mds"
    and ds: "mesh_dataSets mesh =
           [\<lparr>ds_fileName = fileName, ds_type = Bed, ds_name = ''Bed Elevation'',
              ds_isTimeVarying = False,
              ds_outputs = [\<lparr>out_time = fzero ops,
                              out_values = zs @ replicate (nPoints' - length zs) (fzero ops),
                              out_valuesV = [],
                              out_active = replicate nVolumes True\<rparr>]\<rparr>,
            \<lparr>ds_fileName = fileName, ds_type = Scalar, ds_name = ''Depth'',
              ds_isTimeVarying = True, ds_outputs = outs\<rparr>] @ mds"
  with assms(2,3) have eq: "nPoints' = nPoints" "nTimesteps' = nTimesteps"
    by simp_all
  from load_momentum_Some [OF m] show ?thesis
  proof (elim disjE)
    assume "(nc_inq_varid c ''xmomentum'' = None \<or> nc_inq_varid c ''ymomentum'' = None) \<and> mds = []"
    then show ?thesis
      unfolding ds by auto
  next
    assume "\<exists>momentumxid momentumyid outs'.
            nc_inq_varid c ''xmomentum'' = Some momentumxid \<and>
            nc_inq_varid c ''ymomentum'' = Some momentumyid \<and>
            momentum_outputs ops c momentumxid momentumyid nPoints' nVolumes nTimesteps' times_buf outs = Some outs' \<and>
            mds = [\<lparr>ds_fileName = fileName, ds_type = Vector, ds_name = ''Momentum'',
                     ds_isTimeVarying = True, ds_outputs = outs'\<rparr>]"
    then obtain momentumxid momentumyid mouts where
      x: "nc_inq_varid c ''xmomentum'' = Some momentumxid"
      and y: "nc_inq_varid c ''ymomentum'' = Some momentumyid"
      and mo: "momentum_outputs ops c momentumxid momentumyid nPoints' nVolumes nTimesteps' times_buf outs =
                 Some mouts"
      and mds: "mds = [\<lparr>ds_fileName = fileName, ds_type = Vector, ds_name = ''Momentum'',
                         ds_isTimeVarying = True, ds_outputs = mouts\<rparr>]"
      by blast
    from momentum_outputs_Some [OF mo] have len: "length mouts = nTimesteps"
      and ok: "\<And>t. t < nTimesteps \<Longrightarrow>
                 momentum_output_ok ops c momentumxid momentumyid nPoints times_buf outs t (mouts ! t)"
      unfolding eq by simp_all
    have rows: "out_active (mouts ! t) = out_active (outs ! t) \<and>
               (\<forall>xrow yrow.
                  float_row c ''xmomentum'' t nPoints = Some xrow \<longrightarrow>
                  float_row c ''ymomentum'' t nPoints = Some yrow \<longrightarrow>
                  (\<forall>n. n < length xrow \<longrightarrow> n < length yrow \<longrightarrow>
                     out_valuesV (mouts ! t) ! n = (xrow ! n, yrow ! n) \<and>
                     out_values (mouts ! t) ! n =
                       fsqrt ops (fadd ops (fmul ops (xrow ! n) (xrow ! n))
                                           (fmul ops (yrow ! n) (yrow ! n)))))"
      if "t < nTimesteps" for t
      using ok [OF that] x y
      by (simp add: momentum_output_ok_def float_row_def float2D_length_def)
    have sel: "mesh_dataSets mesh ! 2 = \<lparr>ds_fileName = fileName, ds_type = Vector, ds_name = ''Momentum'',
                         ds_isTimeVarying = True, ds_outputs = mouts\<rparr>"
      "ds_outputs (mesh_dataSets mesh ! 1) = outs"
      "length (mesh_dataSets mesh) = 3"
      "\<exists>ds \<in> set (mesh_dataSets mesh). ds_name ds = ''Momentum''"
      unfolding ds mds by simp_all
    show ?thesis
      unfolding sel using x y len rows sel(3,4) by simp
  qed
qed

lemma sample_no_momentum_loads:
  "loadSWW exact_ops ''a.sww'' sample_no_momentum = Returned Err_None (Some sample_no_momentum_mesh)"
  by (simp add: loader_eval sample_def sample_no_momentum_def sample_no_momentum_mesh_def)

section \<open>The claims\<close>

text \<open>
  Claim C1: if any bulk array read fails at any stage of the load (coordinate arrays,
  connectivity, time axis, per-timestep stage rows, per-timestep momentum rows), the loader
  sets the status to \<^verbatim>\<open>UnknownFormat\<close> and returns a null result.

  The loader checks the return codes of the reads of \<^verbatim>\<open>x\<close>, \<^verbatim>\<open>y\<close>, \<^verbatim>\<open>z\<close> and
  \<^verbatim>\<open>volumes\<close> (lines 102-112) and ignores those of the reads of the time axis (line 169),
  of the rows of \<^verbatim>\<open>stage\<close> (line 186) and of the rows of the two momentum variables (lines
  231-232). On the container \<open>sample_unreadable\<close> each of these four reads fails, and the
  loader returns a mesh with a clear status: its depth is \<open>0 - z\<close> and its times and
  momenta are 0.
\<close>

theorem loadSWW_ignores_failed_reads:
  "nc_inq_varid sample_unreadable ''time'' = Some 4 \<and>
   nc_get_var_float sample_unreadable 4 = None \<and>
   nc_inq_varid sample_unreadable ''stage'' = Some 5 \<and>
   nc_get_vars_float sample_unreadable 5 (0, 0) (1, 4) = None \<and>
   nc_inq_varid sample_unreadable ''xmomentum'' = Some 6 \<and>
   nc_get_vars_float sample_unreadable 6 (0, 0) (1, 4) = None \<and>
   nc_inq_varid sample_unreadable ''ymomentum'' = Some 7 \<and>
   nc_get_vars_float sample_unreadable 7 (0, 0) (1, 4) = None \<and>
   loadSWW exact_ops ''a.sww'' sample_unreadable = Returned Err_None (Some sample_unreadable_mesh)"
  by (simp add: loader_eval sample_def sample_unreadable_def sample_unreadable_mesh_def)

text \<open>
  Claim C2, amended: for every successfully loaded file whose \<^verbatim>\<open>volumes\<close> array holds only
  values below \<^verbatim>\<open>number_of_points\<close>, every element of the mesh has three node indices,
  each in the range \<open>[0, nodeCount)\<close>. The loader copies the connectivity and does not
  check it.
\<close>

theorem loadSWW_element_indices:
  assumes "loadSWW ops fileName c = Returned st (Some mesh)"
    and "dimension c ''number_of_points'' = Some nPoints"
    and "int_variable c ''volumes'' = Some volumes"
    and "\<forall>v \<in> set volumes. unat v < nPoints"
  shows "\<forall>e \<in> set (mesh_elements mesh).
           length (elem_p e) = 3 \<and> (\<forall>p \<in> set (elem_p e). unat p < length (mesh_nodes mesh))"
  using assms(1)
proof (rule loadSWW_mesh)
  fix nVolumes nPoints' xs ys pvolumes
  assume "dimension c ''number_of_points'' = Some nPoints'"
    and "int_variable c ''volumes'' = Some pvolumes"
    and lv: "length pvolumes = 3 * nVolumes"
    and nodes: "mesh_nodes mesh =
           map (\<lambda>i. \<lparr>node_id = int i,
                       node_x = fadd ops ((xs @ replicate (nPoints' - length xs) (fzero ops)) ! i)
                                  (get_corner ops c ''xllcorner''),
                       node_y = fadd ops ((ys @ replicate (nPoints' - length ys) (fzero ops)) ! i)
                                  (get_corner ops c ''yllcorner'')\<rparr>) [0..<nPoints']"
    and elems: "mesh_elements mesh =
           map (\<lambda>i. \<lparr>elem_id = int i, elem_eType = E3T,
                       elem_p = [pvolumes ! (3 * i + 0), pvolumes ! (3 * i + 1), pvolumes ! (3 * i + 2)]\<rparr>)
             [0..<nVolumes]"
  with assms(2,3) have eq: "nPoints' = nPoints" "pvolumes = volumes"
    by simp_all
  have "unat (volumes ! k) < nPoints" if "k < 3 * nVolumes" for k
    using that assms(4) lv eq by simp
  then show ?thesis
    unfolding nodes elems eq by auto
qed

theorem loadSWW_element_indices_witness:
  "loadSWW exact_ops ''a.sww'' sample = Returned Err_None (Some sample_mesh) \<and>
   int_variable sample ''volumes'' = Some [0, 1, 2, 0, 2, 3] \<and>
   length (elem_p (mesh_elements sample_mesh ! 1)) = 3 \<and>
   unat (elem_p (mesh_elements sample_mesh ! 1) ! 2) < length (mesh_nodes sample_mesh)"
proof -
  have d: "dimension sample ''number_of_points'' = Some 4"
    and v: "int_variable sample ''volumes'' = Some [0, 1, 2, 0, 2, 3]"
    by (simp_all add: sample_def lookup_eval)
  have r: "\<forall>v \<in> set [0, 1, 2, 0, 2, 3 :: 32 word]. unat v < 4"
    by simp
  have m: "mesh_elements sample_mesh ! 1 \<in> set (mesh_elements sample_mesh)"
    and p: "elem_p (mesh_elements sample_mesh ! 1) ! 2 \<in> set (elem_p (mesh_elements sample_mesh ! 1))"
    by (simp_all add: sample_mesh_def)
  from loadSWW_element_indices [OF sample_loads d v r] m p show ?thesis
    using sample_loads v by blast
qed

text \<open>
  Claim C2 as stated fails: \<open>sample_dangling\<close> has one point and the triangle \<open>[0,1,2]\<close>,
  and no timestep. The load succeeds and the element keeps the node index 2, which is not
  below the node count 1.
\<close>

theorem loadSWW_element_indices_counterexample:
  "loadSWW exact_ops ''b.sww'' sample_dangling = Returned Err_None (Some sample_dangling_mesh) \<and>
   dimension sample_dangling ''number_of_points'' = Some 1 \<and>
   length (mesh_nodes sample_dangling_mesh) = 1 \<and>
   elem_p (mesh_elements sample_dangling_mesh ! 0) = [0, 1, 2] \<and>
   \<not> unat (elem_p (mesh_elements sample_dangling_mesh ! 0) ! 2) < length (mesh_nodes sample_dangling_mesh)"
  by (simp add: sample_dangling_loads)
    (simp add: sample_dangling_def sample_dangling_mesh_def lookup_eval)

text \<open>
  Claim C3: for every successfully loaded file, the depth dataset has one output per
  timestep, in the order of the timesteps; the time of output \<open>t\<close> is \<open>rawTime[t] / 3600\<close>,
  and its scalar value at node \<open>n\<close> is \<open>stage[t][n] - z[n]\<close>. Here \<open>rawTime\<close>, \<open>z\<close> and the
  row \<open>t\<close> of \<open>stage\<close> are the arrays the container returns, at the indices for which it
  returns a value.
\<close>

theorem loadSWW_depth_values:
  assumes "loadSWW ops fileName c = Returned st (Some mesh)"
    and "dimension c ''number_of_points'' = Some nPoints"
    and "dimension c ''number_of_volumes'' = Some nVolumes"
    and "dimension c ''number_of_timesteps'' = Some nTimesteps"
    and "float_variable c ''z'' = Some z"
  shows "ds_name (mesh_dataSets mesh ! 1) = ''Depth'' \<and>
         length (ds_outputs (mesh_dataSets mesh ! 1)) = nTimesteps \<and>
         (\<forall>rawTime. float_variable c ''time'' = Some rawTime \<longrightarrow>
            (\<forall>t<length rawTime.
               out_time (ds_outputs (mesh_dataSets mesh ! 1) ! t) = fdiv_double ops (rawTime ! t) 3600)) \<and>
         (\<forall>t<nTimesteps. \<forall>stage. float_row c ''stage'' t nPoints = Some stage \<longrightarrow>
            (\<forall>n. n < length stage \<longrightarrow> n < length z \<longrightarrow>
               out_values (ds_outputs (mesh_dataSets mesh ! 1) ! t) ! n = fsub ops (stage ! n) (z ! n)))"
  using assms(1-4)
proof (rule depth_dataset)
  fix timeid stageid zs times_buf
  assume ids: "nc_inq_varid c ''time'' = Some timeid" "nc_inq_varid c ''stage'' = Some stageid"
    and zs: "float_variable c ''z'' = Some zs" "length zs \<le> nPoints"
    and tb: "unchecked_read (nc_get_var_float c timeid) (replicate nTimesteps (fzero ops)) = Some times_buf"
    and name: "ds_name (mesh_dataSets mesh ! 1) = ''Depth''"
    and len: "length (ds_outputs (mesh_dataSets mesh ! 1)) = nTimesteps"
    and out: "\<And>t. t < nTimesteps \<Longrightarrow>
           depth_output ops c stageid nPoints nVolumes times_buf
             (zs @ replicate (nPoints - length zs) (fzero ops)) (mesh_elements mesh) t =
           Some (ds_outputs (mesh_dataSets mesh ! 1) ! t)"
  from zs assms(5) have z: "zs = z" by simp
  have time: "out_time (ds_outputs (mesh_dataSets mesh ! 1) ! t) = fdiv_double ops (rawTime ! t) 3600"
    if "float_variable c ''time'' = Some rawTime" and t: "t < length rawTime" for rawTime t
  proof -
    from that(1) ids have raw: "nc_get_var_float c timeid = Some rawTime"
      by (simp add: float_variable_def)
    have "length rawTime \<le> nTimesteps"
      using unchecked_read_bound [OF tb [unfolded raw]] by simp
    with t have "t < nTimesteps" by simp
    from out [OF this] show ?thesis
    proof (rule depth_output_Some)
      assume "out_time (ds_outputs (mesh_dataSets mesh ! 1) ! t) = fdiv_double ops (times_buf ! t) 3600"
      then show ?thesis
        using unchecked_read_nth [OF tb [unfolded raw] t] by simp
    qed
  qed
  have vals: "out_values (ds_outputs (mesh_dataSets mesh ! 1) ! t) ! n = fsub ops (stage ! n) (z ! n)"
    if "t < nTimesteps" and row: "float_row c ''stage'' t nPoints = Some stage"
      and n: "n < length stage" "n < length z" for t stage n
  proof -
    from row ids have r: "nc_get_vars_float c stageid (t, 0) (1, nPoints) = Some stage"
      by (simp add: float_row_def)
    from out [OF that(1)] show ?thesis
    proof (rule depth_output_Some)
      fix buf
      assume b: "unchecked_read (nc_get_vars_float c stageid (t, 0) (1, nPoints))
                   (replicate nPoints (fzero ops)) = Some buf"
        and v: "out_values (ds_outputs (mesh_dataSets mesh ! 1) ! t) =
                  map (\<lambda>j. fsub ops (buf ! j) ((zs @ replicate (nPoints - length zs) (fzero ops)) ! j))
                    [0..<nPoints]"
      have "n < nPoints"
        using unchecked_read_bound [OF b [unfolded r]] n(1) by simp
      moreover have "buf ! n = stage ! n"
        using unchecked_read_nth [OF b [unfolded r] n(1)] .
      ultimately show ?thesis
        using n(2) unfolding v z by (simp add: nth_append)
    qed
  qed
  show ?thesis
    using name len time vals by blast
qed

theorem loadSWW_depth_values_witness:
  "loadSWW exact_ops ''a.sww'' sample = Returned Err_None (Some sample_mesh) \<and>
   float_variable sample ''z'' = Some [10, 10, 10, 12] \<and>
   float_variable sample ''time'' = Some [7200] \<and>
   float_row sample ''stage'' 0 4 = Some [200001 / 20000, 10001 / 1000, 200001 / 20000, 240001 / 20000] \<and>
   length (ds_outputs (mesh_dataSets sample_mesh ! 1)) = 1 \<and>
   out_time (ds_outputs (mesh_dataSets sample_mesh ! 1) ! 0) = 7200 / 3600 \<and>
   out_values (ds_outputs (mesh_dataSets sample_mesh ! 1) ! 0) ! 1 = 10001 / 1000 - 10 \<and>
   out_values (ds_outputs (mesh_dataSets sample_mesh ! 1) ! 0) ! 3 = 240001 / 20000 - 12"
proof -
  have z: "float_variable sample ''z'' = Some [10, 10, 10, 12]"
    and t: "float_variable sample ''time'' = Some [7200]"
    and s: "float_row sample ''stage'' 0 4 =
              Some [200001 / 20000, 10001 / 1000, 200001 / 20000, 240001 / 20000]"
    by (simp_all add: sample_def lookup_eval)
  note d = loadSWW_depth_values [OF sample_loads sample_dimensions z]
  from d t have "length (ds_outputs (mesh_dataSets sample_mesh ! 1)) = 1"
    and "out_time (ds_outputs (mesh_dataSets sample_mesh ! 1) ! 0) = 7200 / 3600"
    by (simp_all add: exact_ops_def)
  moreover from d s have "out_values (ds_outputs (mesh_dataSets sample_mesh ! 1) ! 0) ! 1 = 10001 / 1000 - 10"
    and "out_values (ds_outputs (mesh_dataSets sample_mesh ! 1) ! 0) ! 3 = 240001 / 20000 - 12"
    by (simp_all add: exact_ops_def)
  ultimately show ?thesis
    using sample_loads z t s by simp
qed

text \<open>
  Claim C4: for every successfully loaded file, every timestep \<open>t\<close> and every element \<open>e\<close>
  with node indices \<open>p0\<close>, \<open>p1\<close>, \<open>p2\<close>, the active flag of \<open>e\<close> in output \<open>t\<close> of the depth
  dataset is \<open>depth[t][p0] > 1e-4 || depth[t][p1] > 1e-4 || depth[t][p2] > 1e-4\<close>.
\<close>

theorem loadSWW_depth_active:
  assumes "loadSWW ops fileName c = Returned st (Some mesh)"
    and "dimension c ''number_of_points'' = Some nPoints"
    and "dimension c ''number_of_volumes'' = Some nVolumes"
    and "dimension c ''number_of_timesteps'' = Some nTimesteps"
  shows "DEPTH_THRESHOLD = 1 / 10000 \<and>
         (\<forall>t<nTimesteps. \<forall>e<nVolumes.
            out_active (ds_outputs (mesh_dataSets mesh ! 1) ! t) ! e =
              (fgt_double ops (out_values (ds_outputs (mesh_dataSets mesh ! 1) ! t) !
                                unat (elem_p (mesh_elements mesh ! e) ! 0)) DEPTH_THRESHOLD \<or>
               fgt_double ops (out_values (ds_outputs (mesh_dataSets mesh ! 1) ! t) !
                                unat (elem_p (mesh_elements mesh ! e) ! 1)) DEPTH_THRESHOLD \<or>
               fgt_double ops (out_values (ds_outputs (mesh_dataSets mesh ! 1) ! t) !
                                unat (elem_p (mesh_elements mesh ! e) ! 2)) DEPTH_THRESHOLD))"
  using assms(1-4)
proof (rule depth_dataset)
  fix stageid zs times_buf
  assume out: "\<And>t. t < nTimesteps \<Longrightarrow>
           depth_output ops c stageid nPoints nVolumes times_buf
             (zs @ replicate (nPoints - length zs) (fzero ops)) (mesh_elements mesh) t =
           Some (ds_outputs (mesh_dataSets mesh ! 1) ! t)"
  have "out_active (ds_outputs (mesh_dataSets mesh ! 1) ! t) ! e =
              (fgt_double ops (out_values (ds_outputs (mesh_dataSets mesh ! 1) ! t) !
                                unat (elem_p (mesh_elements mesh ! e) ! 0)) DEPTH_THRESHOLD \<or>
               fgt_double ops (out_values (ds_outputs (mesh_dataSets mesh ! 1) ! t) !
                                unat (elem_p (mesh_elements mesh ! e) ! 1)) DEPTH_THRESHOLD \<or>
               fgt_double ops (out_values (ds_outputs (mesh_dataSets mesh ! 1) ! t) !
                                unat (elem_p (mesh_elements mesh ! e) ! 2)) DEPTH_THRESHOLD)"
    if "t < nTimesteps" and e: "e < nVolumes" for t e
    using out [OF that(1)]
  proof (rule depth_output_Some)
    assume da: "depth_active ops nVolumes (mesh_elements mesh)
              (out_values (ds_outputs (mesh_dataSets mesh ! 1) ! t)) (replicate nVolumes False) =
            Some (out_active (ds_outputs (mesh_dataSets mesh ! 1) ! t))"
    show ?thesis
      by (rule depth_active_Some(5) [OF da _ e]) simp
  qed
  then show ?thesis
    by (simp add: DEPTH_THRESHOLD_def)
qed

theorem loadSWW_depth_active_witness:
  "loadSWW exact_ops ''a.sww'' sample = Returned Err_None (Some sample_mesh) \<and>
   out_values (ds_outputs (mesh_dataSets sample_mesh ! 1) ! 0) = [1 / 20000, 1 / 1000, 1 / 20000, 1 / 20000] \<and>
   elem_p (mesh_elements sample_mesh ! 0) = [0, 1, 2] \<and>
   elem_p (mesh_elements sample_mesh ! 1) = [0, 2, 3] \<and>
   out_active (ds_outputs (mesh_dataSets sample_mesh ! 1) ! 0) ! 0 \<and>
   \<not> out_active (ds_outputs (mesh_dataSets sample_mesh ! 1) ! 0) ! 1"
proof -
  have v: "out_values (ds_outputs (mesh_dataSets sample_mesh ! 1) ! 0) = [1 / 20000, 1 / 1000, 1 / 20000, 1 / 20000]"
    and p: "elem_p (mesh_elements sample_mesh ! 0) = [0, 1, 2]" "elem_p (mesh_elements sample_mesh ! 1) = [0, 2, 3]"
    by (simp_all add: sample_mesh_def)
  from loadSWW_depth_active [OF sample_loads sample_dimensions]
  have "out_active (ds_outputs (mesh_dataSets sample_mesh ! 1) ! 0) ! 0"
    and "\<not> out_active (ds_outputs (mesh_dataSets sample_mesh ! 1) ! 0) ! 1"
    by (simp_all add: sample_mesh_def exact_ops_def)
  with sample_loads v p show ?thesis
    by simp
qed

text \<open>
  Claim C5: a momentum dataset is produced if and only if the container has both
  \<^verbatim>\<open>xmomentum\<close> and \<^verbatim>\<open>ymomentum\<close>, and their absence is not an error.

  First conjunct: a container that opens, has the dimensions (three vertices per
  volume) and the variables \<^verbatim>\<open>time\<close> and \<^verbatim>\<open>stage\<close>, and whose \<^verbatim>\<open>x\<close>, \<^verbatim>\<open>y\<close>, \<^verbatim>\<open>z\<close>
  and \<^verbatim>\<open>volumes\<close> are read, never gets a null result or an error status, whether it has
  the momentum variables or not: the loader returns a mesh with a clear status (unless
  the run has undefined behaviour).

  Second conjunct: every returned mesh comes with a clear status; it holds a dataset
  named \<open>Momentum\<close> exactly when both variables are present (it is the third dataset;
  without it the mesh has two datasets). When it is produced, for every timestep \<open>t\<close> its
  active array is that of output \<open>t\<close> of the depth dataset, and at every node \<open>n\<close> for which
  the container returns both components its vector value is \<open>(x[t][n], y[t][n])\<close> and its
  scalar value is \<open>sqrt(x[t][n]\<^sup>2 + y[t][n]\<^sup>2)\<close>. The scalar value is the one
  \<open>float2D_length\<close> computes.
\<close>

theorem loadSWW_momentum:
  assumes "dimension c ''number_of_points'' = Some nPoints"
    and "dimension c ''number_of_timesteps'' = Some nTimesteps"
  shows "(nc_open c \<and> dimension c ''number_of_volumes'' \<noteq> None \<and>
          dimension c ''number_of_vertices'' = Some 3 \<and>
          nc_inq_varid c ''time'' \<noteq> None \<and> nc_inq_varid c ''stage'' \<noteq> None \<and>
          float_variable c ''x'' \<noteq> None \<and> float_variable c ''y'' \<noteq> None \<and>
          float_variable c ''z'' \<noteq> None \<and> int_variable c ''volumes'' \<noteq> None \<longrightarrow>
            loadSWW ops fileName c = Undefined_Behaviour \<or>
            (\<exists>mesh. loadSWW ops fileName c = Returned Err_None (Some mesh))) \<and>
         (\<forall>st mesh. loadSWW ops fileName c = Returned st (Some mesh) \<longrightarrow>
            st = Err_None \<and>
            ((\<exists>ds \<in> set (mesh_dataSets mesh). ds_name ds = ''Momentum'') \<longleftrightarrow>
            nc_inq_varid c ''xmomentum'' \<noteq> None \<and> nc_inq_varid c ''ymomentum'' \<noteq> None) \<and>
         length (mesh_dataSets mesh) =
           (if nc_inq_varid c ''xmomentum'' \<noteq> None \<and> nc_inq_varid c ''ymomentum'' \<noteq> None then 3 else 2) \<and>
         (nc_inq_varid c ''xmomentum'' \<noteq> None \<and> nc_inq_varid c ''ymomentum'' \<noteq> None \<longrightarrow>
            ds_name (mesh_dataSets mesh ! 2) = ''Momentum'' \<and>
            ds_type (mesh_dataSets mesh ! 2) = Vector \<and>
            ds_isTimeVarying (mesh_dataSets mesh ! 2) \<and>
            length (ds_outputs (mesh_dataSets mesh ! 2)) = nTimesteps \<and>
            (\<forall>t<nTimesteps.
               out_active (ds_outputs (mesh_dataSets mesh ! 2) ! t) =
                 out_active (ds_outputs (mesh_dataSets mesh ! 1) ! t) \<and>
               (\<forall>xrow yrow.
                  float_row c ''xmomentum'' t nPoints = Some xrow \<longrightarrow>
                  float_row c ''ymomentum'' t nPoints = Some yrow \<longrightarrow>
                  (\<forall>n. n < length xrow \<longrightarrow> n < length yrow \<longrightarrow>
                     out_valuesV (ds_outputs (mesh_dataSets mesh ! 2) ! t) ! n = (xrow ! n, yrow ! n) \<and>
                     out_values (ds_outputs (mesh_dataSets mesh ! 2) ! t) ! n =
                       fsqrt ops (fadd ops (fmul ops (xrow ! n) (xrow ! n))
                                           (fmul ops (yrow ! n) (yrow ! n))))))))"
proof -
  have absent: "loadSWW ops fileName c = Undefined_Behaviour \<or>
            (\<exists>mesh. loadSWW ops fileName c = Returned Err_None (Some mesh))"
    if p: "nc_open c \<and> dimension c ''number_of_volumes'' \<noteq> None \<and>
          dimension c ''number_of_vertices'' = Some 3 \<and>
          nc_inq_varid c ''time'' \<noteq> None \<and> nc_inq_varid c ''stage'' \<noteq> None \<and>
          float_variable c ''x'' \<noteq> None \<and> float_variable c ''y'' \<noteq> None \<and>
          float_variable c ''z'' \<noteq> None \<and> int_variable c ''volumes'' \<noteq> None"
  proof -
    from p assms have d: "get_dimensions c \<noteq> None"
      by (auto simp: get_dimensions_None)
    from p have v: "get_variables c \<noteq> None"
      by (auto simp: get_variables_None float_variable_def int_variable_def split: option.splits)
    show ?thesis
    proof (cases "loadSWW ops fileName c")
      case Undefined_Behaviour
      then show ?thesis by simp
    next
      case (Returned st m)
      show ?thesis
      proof (cases m)
        case None
        with Returned loadSWW_null_causes [of ops fileName c st] p d v show ?thesis
          by simp
      next
        case (Some mesh)
        with Returned loadSWW_mesh_status [of ops fileName c st mesh] show ?thesis
          by simp
      qed
    qed
  qed
  have present: "st = Err_None \<and>
            ((\<exists>ds \<in> set (mesh_dataSets mesh). ds_name ds = ''Momentum'') \<longleftrightarrow>
            nc_inq_varid c ''xmomentum'' \<noteq> None \<and> nc_inq_varid c ''ymomentum'' \<noteq> None) \<and>
         length (mesh_dataSets mesh) =
           (if nc_inq_varid c ''xmomentum'' \<noteq> None \<and> nc_inq_varid c ''ymomentum'' \<noteq> None then 3 else 2) \<and>
         (nc_inq_varid c ''xmomentum'' \<noteq> None \<and> nc_inq_varid c ''ymomentum'' \<noteq> None \<longrightarrow>
            ds_name (mesh_dataSets mesh ! 2) = ''Momentum'' \<and>
            ds_type (mesh_dataSets mesh ! 2) = Vector \<and>
            ds_isTimeVarying (mesh_dataSets mesh ! 2) \<and>
            length (ds_outputs (mesh_dataSets mesh ! 2)) = nTimesteps \<and>
            (\<forall>t<nTimesteps.
               out_active (ds_outputs (mesh_dataSets mesh ! 2) ! t) =
                 out_active (ds_outputs (mesh_dataSets mesh ! 1) ! t) \<and>
               (\<forall>xrow yrow.
                  float_row c ''xmomentum'' t nPoints = Some xrow \<longrightarrow>
                  float_row c ''ymomentum'' t nPoints = Some yrow \<longrightarrow>
                  (\<forall>n. n < length xrow \<longrightarrow> n < length yrow \<longrightarrow>
                     out_valuesV (ds_outputs (mesh_dataSets mesh ! 2) ! t) ! n = (xrow ! n, yrow ! n) \<and>
                     out_values (ds_outputs (mesh_dataSets mesh ! 2) ! t) ! n =
                       fsqrt ops (fadd ops (fmul ops (xrow ! n) (xrow ! n))
                                           (fmul ops (yrow ! n) (yrow ! n)))))))"
    if l: "loadSWW ops fileName c = Returned st (Some mesh)" for st mesh
    by (rule conjI [OF loadSWW_mesh_status [OF l] momentum_dataset_of_mesh [OF l assms]])
  from absent have A: "nc_open c \<and> dimension c ''number_of_volumes'' \<noteq> None \<and>
          dimension c ''number_of_vertices'' = Some 3 \<and>
          nc_inq_varid c ''time'' \<noteq> None \<and> nc_inq_varid c ''stage'' \<noteq> None \<and>
          float_variable c ''x'' \<noteq> None \<and> float_variable c ''y'' \<noteq> None \<and>
          float_variable c ''z'' \<noteq> None \<and> int_variable c ''volumes'' \<noteq> None \<longrightarrow>
            loadSWW ops fileName c = Undefined_Behaviour \<or>
            (\<exists>mesh. loadSWW ops fileName c = Returned Err_None (Some mesh))"
    by (rule impI)
  from present have B: "\<forall>st mesh. loadSWW ops fileName c = Returned st (Some mesh) \<longrightarrow>
            st = Err_None \<and>
            ((\<exists>ds \<in> set (mesh_dataSets mesh). ds_name ds = ''Momentum'') \<longleftrightarrow>
            nc_inq_varid c ''xmomentum'' \<noteq> None \<and> nc_inq_varid c ''ymomentum'' \<noteq> None) \<and>
         length (mesh_dataSets mesh) =
           (if nc_inq_varid c ''xmomentum'' \<noteq> None \<and> nc_inq_varid c ''ymomentum'' \<noteq> None then 3 else 2) \<and>
         (nc_inq_varid c ''xmomentum'' \<noteq> None \<and> nc_inq_varid c ''ymomentum'' \<noteq> None \<longrightarrow>
            ds_name (mesh_dataSets mesh ! 2) = ''Momentum'' \<and>
            ds_type (mesh_dataSets mesh ! 2) = Vector \<and>
            ds_isTimeVarying (mesh_dataSets mesh ! 2) \<and>
            length (ds_outputs (mesh_dataSets mesh ! 2)) = nTimesteps \<and>
            (\<forall>t<nTimesteps.
               out_active (ds_outputs (mesh_dataSets mesh ! 2) ! t) =
                 out_active (ds_outputs (mesh_dataSets mesh ! 1) ! t) \<and>
               (\<forall>xrow yrow.
                  float_row c ''xmomentum'' t nPoints = Some xrow \<longrightarrow>
                  float_row c ''ymomentum'' t nPoints = Some yrow \<longrightarrow>
                  (\<forall>n. n < length xrow \<longrightarrow> n < length yrow \<longrightarrow>
                     out_valuesV (ds_outputs (mesh_dataSets mesh ! 2) ! t) ! n = (xrow ! n, yrow ! n) \<and>
                     out_values (ds_outputs (mesh_dataSets mesh ! 2) ! t) ! n =
                       fsqrt ops (fadd ops (fmul ops (xrow ! n) (xrow ! n))
                                           (fmul ops (yrow ! n) (yrow ! n)))))))"
    by (intro allI impI)
  show ?thesis
    by (rule conjI [OF A B])
qed

theorem loadSWW_momentum_witness:
  "loadSWW exact_ops ''a.sww'' sample = Returned Err_None (Some sample_mesh) \<and>
   nc_inq_varid sample ''xmomentum'' = Some 6 \<and>
   nc_inq_varid sample ''ymomentum'' = Some 7 \<and>
   float_row sample ''xmomentum'' 0 4 = Some [0, 3, 0, 0] \<and>
   float_row sample ''ymomentum'' 0 4 = Some [0, 4, 0, 0] \<and>
   length (mesh_dataSets sample_mesh) = 3 \<and>
   ds_name (mesh_dataSets sample_mesh ! 2) = ''Momentum'' \<and>
   length (ds_outputs (mesh_dataSets sample_mesh ! 2)) = 1 \<and>
   out_active (ds_outputs (mesh_dataSets sample_mesh ! 2) ! 0) =
     out_active (ds_outputs (mesh_dataSets sample_mesh ! 1) ! 0) \<and>
   out_valuesV (ds_outputs (mesh_dataSets sample_mesh ! 2) ! 0) ! 1 = (3, 4) \<and>
   out_values (ds_outputs (mesh_dataSets sample_mesh ! 2) ! 0) ! 1 = sqrt (3 * 3 + 4 * 4) \<and>
   dimension sample_no_momentum ''number_of_timesteps'' = Some 1 \<and>
   nc_inq_varid sample_no_momentum ''xmomentum'' = None \<and>
   nc_inq_varid sample_no_momentum ''ymomentum'' = None \<and>
   (loadSWW exact_ops ''a.sww'' sample_no_momentum = Undefined_Behaviour \<or>
    (\<exists>mesh. loadSWW exact_ops ''a.sww'' sample_no_momentum = Returned Err_None (Some mesh))) \<and>
   loadSWW exact_ops ''a.sww'' sample_no_momentum = Returned Err_None (Some sample_no_momentum_mesh) \<and>
   length (mesh_dataSets sample_no_momentum_mesh) = 2"
proof -
  have i: "nc_inq_varid sample ''xmomentum'' = Some 6" "nc_inq_varid sample ''ymomentum'' = Some 7"
    and r: "float_row sample ''xmomentum'' 0 4 = Some [0, 3, 0, 0]"
      "float_row sample ''ymomentum'' 0 4 = Some [0, 4, 0, 0]"
    by (simp_all add: sample_def lookup_eval)
  note m = loadSWW_momentum [OF sample_dimensions(1,3), of exact_ops "''a.sww''",
      THEN conjunct2, THEN spec, THEN spec, THEN mp, OF sample_loads, THEN conjunct2]
  from m i have "length (mesh_dataSets sample_mesh) = 3"
    and "ds_name (mesh_dataSets sample_mesh ! 2) = ''Momentum''"
    and "length (ds_outputs (mesh_dataSets sample_mesh ! 2)) = 1"
    and "out_active (ds_outputs (mesh_dataSets sample_mesh ! 2) ! 0) =
           out_active (ds_outputs (mesh_dataSets sample_mesh ! 1) ! 0)"
    by simp_all
  moreover from m i r have "out_valuesV (ds_outputs (mesh_dataSets sample_mesh ! 2) ! 0) ! 1 = (3, 4)"
    and "out_values (ds_outputs (mesh_dataSets sample_mesh ! 2) ! 0) ! 1 = sqrt (3 * 3 + 4 * 4)"
    by (simp_all add: exact_ops_def)
  moreover have d: "dimension sample_no_momentum ''number_of_points'' = Some 4"
    "dimension sample_no_momentum ''number_of_timesteps'' = Some 1"
    and n: "nc_inq_varid sample_no_momentum ''xmomentum'' = None"
      "nc_inq_varid sample_no_momentum ''ymomentum'' = None"
    and p: "nc_open sample_no_momentum \<and> dimension sample_no_momentum ''number_of_volumes'' \<noteq> None \<and>
          dimension sample_no_momentum ''number_of_vertices'' = Some 3 \<and>
          nc_inq_varid sample_no_momentum ''time'' \<noteq> None \<and>
          nc_inq_varid sample_no_momentum ''stage'' \<noteq> None \<and>
          float_variable sample_no_momentum ''x'' \<noteq> None \<and>
          float_variable sample_no_momentum ''y'' \<noteq> None \<and>
          float_variable sample_no_momentum ''z'' \<noteq> None \<and>
          int_variable sample_no_momentum ''volumes'' \<noteq> None"
    by (simp_all add: sample_no_momentum_def sample_def lookup_eval)
  note a = loadSWW_momentum [OF d, of exact_ops "''a.sww''"]
  have "loadSWW exact_ops ''a.sww'' sample_no_momentum = Undefined_Behaviour \<or>
    (\<exists>mesh. loadSWW exact_ops ''a.sww'' sample_no_momentum = Returned Err_None (Some mesh))"
    by (rule a [THEN conjunct1, THEN mp, OF p])
  moreover from a [THEN conjunct2, THEN spec, THEN spec, THEN mp, OF sample_no_momentum_loads,
      THEN conjunct2, THEN conjunct2, THEN conjunct1] n have "length (mesh_dataSets sample_no_momentum_mesh) = 2"
    by simp
  ultimately show ?thesis
    using sample_loads sample_no_momentum_loads i r n d(2) by simp
qed

text \<open>
  Claim C6: for every successfully loaded file, the bed dataset (the first dataset) has
  type \<open>Bed\<close> and name \<open>Bed Elevation\<close>, is not time-varying, and has exactly one output; the
  scalar array of that output is the \<^verbatim>\<open>z\<close> array as read into the buffer of
  \<open>nPoints\<close> floats (the \<^verbatim>\<open>z\<close> array itself when it has \<open>nPoints\<close> values), and its
  active array is all true.
\<close>

theorem loadSWW_bed_dataset:
  assumes "loadSWW ops fileName c = Returned st (Some mesh)"
    and "dimension c ''number_of_points'' = Some nPoints"
    and "dimension c ''number_of_volumes'' = Some nVolumes"
    and "float_variable c ''z'' = Some z"
  shows "ds_type (mesh_dataSets mesh ! 0) = Bed \<and>
         ds_name (mesh_dataSets mesh ! 0) = ''Bed Elevation'' \<and>
         \<not> ds_isTimeVarying (mesh_dataSets mesh ! 0) \<and>
         length (ds_outputs (mesh_dataSets mesh ! 0)) = 1 \<and>
         out_values (ds_outputs (mesh_dataSets mesh ! 0) ! 0) =
           z @ replicate (nPoints - length z) (fzero ops) \<and>
         (length z = nPoints \<longrightarrow> out_values (ds_outputs (mesh_dataSets mesh ! 0) ! 0) = z) \<and>
         out_active (ds_outputs (mesh_dataSets mesh ! 0) ! 0) = replicate nVolumes True"
  using assms(1)
proof (rule loadSWW_mesh)
  fix nVolumes' nPoints' zs outs mds
  assume "dimension c ''number_of_volumes'' = Some nVolumes'"
    and "dimension c ''number_of_points'' = Some nPoints'"
    and "float_variable c ''z'' = Some zs"
    and ds: "mesh_dataSets mesh =
           [\<lparr>ds_fileName = fileName, ds_type = Bed, ds_name = ''Bed Elevation'',
              ds_isTimeVarying = False,
              ds_outputs = [\<lparr>out_time = fzero ops,
                              out_values = zs @ replicate (nPoints' - length zs) (fzero ops),
                              out_valuesV = [],
                              out_active = replicate nVolumes' True\<rparr>]\<rparr>,
            \<lparr>ds_fileName = fileName, ds_type = Scalar, ds_name = ''Depth'',
              ds_isTimeVarying = True, ds_outputs = outs\<rparr>] @ mds"
  with assms(2-4) have eq: "nVolumes' = nVolumes" "nPoints' = nPoints" "zs = z"
    by simp_all
  show ?thesis
    unfolding ds eq by simp
qed

theorem loadSWW_bed_dataset_witness:
  "loadSWW exact_ops ''a.sww'' sample = Returned Err_None (Some sample_mesh) \<and>
   float_variable sample ''z'' = Some [10, 10, 10, 12] \<and>
   ds_type (mesh_dataSets sample_mesh ! 0) = Bed \<and>
   ds_name (mesh_dataSets sample_mesh ! 0) = ''Bed Elevation'' \<and>
   \<not> ds_isTimeVarying (mesh_dataSets sample_mesh ! 0) \<and>
   length (ds_outputs (mesh_dataSets sample_mesh ! 0)) = 1 \<and>
   out_values (ds_outputs (mesh_dataSets sample_mesh ! 0) ! 0) = [10, 10, 10, 12] \<and>
   out_active (ds_outputs (mesh_dataSets sample_mesh ! 0) ! 0) = [True, True]"
proof -
  have z: "float_variable sample ''z'' = Some [10, 10, 10, 12]"
    by (simp add: sample_def lookup_eval)
  from loadSWW_bed_dataset [OF sample_loads sample_dimensions(1,2) z]
  have "ds_type (mesh_dataSets sample_mesh ! 0) = Bed"
    and "ds_name (mesh_dataSets sample_mesh ! 0) = ''Bed Elevation''"
    and "\<not> ds_isTimeVarying (mesh_dataSets sample_mesh ! 0)"
    and "length (ds_outputs (mesh_dataSets sample_mesh ! 0)) = 1"
    and "out_values (ds_outputs (mesh_dataSets sample_mesh ! 0) ! 0) = [10, 10, 10, 12]"
    and "out_active (ds_outputs (mesh_dataSets sample_mesh ! 0) ! 0) = [True, True]"
    by (simp_all add: replicate_numeral)
  with sample_loads z show ?thesis
    by simp
qed

text \<open>
  Claim C7: for every successfully loaded file, the mesh has \<open>nPoints\<close> nodes with the ids
  \<open>0, 1, ...\<close> in file order and the coordinates \<open>(x[i] + offsetX, y[i] + offsetY)\<close>, where
  the offsets are the attributes \<^verbatim>\<open>xllcorner\<close> and \<^verbatim>\<open>yllcorner\<close>, or 0 when absent; and
  it has \<open>nVolumes\<close> triangles whose node indices are the consecutive triplets of the
  \<^verbatim>\<open>volumes\<close> array, in order.
\<close>

theorem loadSWW_geometry:
  assumes "loadSWW ops fileName c = Returned st (Some mesh)"
    and "dimension c ''number_of_points'' = Some nPoints"
    and "dimension c ''number_of_volumes'' = Some nVolumes"
    and "float_variable c ''x'' = Some x"
    and "float_variable c ''y'' = Some y"
    and "int_variable c ''volumes'' = Some volumes"
  shows "length (mesh_nodes mesh) = nPoints \<and>
         (\<forall>i<nPoints. node_id (mesh_nodes mesh ! i) = int i) \<and>
         (\<forall>i<length x. node_x (mesh_nodes mesh ! i) =
            fadd ops (x ! i) (case nc_get_att_float c ''xllcorner'' of None \<Rightarrow> fzero ops | Some v \<Rightarrow> v)) \<and>
         (\<forall>i<length y. node_y (mesh_nodes mesh ! i) =
            fadd ops (y ! i) (case nc_get_att_float c ''yllcorner'' of None \<Rightarrow> fzero ops | Some v \<Rightarrow> v)) \<and>
         length (mesh_elements mesh) = nVolumes \<and>
         (\<forall>i<nVolumes. mesh_elements mesh ! i =
            \<lparr>elem_id = int i, elem_eType = E3T,
             elem_p = [volumes ! (3 * i), volumes ! (3 * i + 1), volumes ! (3 * i + 2)]\<rparr>)"
  using assms(1)
proof (rule loadSWW_mesh)
  fix nVolumes' nPoints' xs ys pvolumes
  assume "dimension c ''number_of_volumes'' = Some nVolumes'"
    and "dimension c ''number_of_points'' = Some nPoints'"
    and "float_variable c ''x'' = Some xs" and lx: "length xs \<le> nPoints'"
    and "float_variable c ''y'' = Some ys" and ly: "length ys \<le> nPoints'"
    and "int_variable c ''volumes'' = Some pvolumes"
    and nodes: "mesh_nodes mesh =
           map (\<lambda>i. \<lparr>node_id = int i,
                       node_x = fadd ops ((xs @ replicate (nPoints' - length xs) (fzero ops)) ! i)
                                  (get_corner ops c ''xllcorner''),
                       node_y = fadd ops ((ys @ replicate (nPoints' - length ys) (fzero ops)) ! i)
                                  (get_corner ops c ''yllcorner'')\<rparr>) [0..<nPoints']"
    and elems: "mesh_elements mesh =
           map (\<lambda>i. \<lparr>elem_id = int i, elem_eType = E3T,
                       elem_p = [pvolumes ! (3 * i + 0), pvolumes ! (3 * i + 1), pvolumes ! (3 * i + 2)]\<rparr>)
             [0..<nVolumes']"
  with assms(2-6) have eq: "nVolumes' = nVolumes" "nPoints' = nPoints" "xs = x" "ys = y" "pvolumes = volumes"
    by simp_all
  show ?thesis
    using lx ly unfolding nodes elems eq
    by (simp add: nth_append get_corner_def)
qed

theorem loadSWW_geometry_witness:
  "loadSWW exact_ops ''a.sww'' sample = Returned Err_None (Some sample_mesh) \<and>
   nc_get_att_float sample ''xllcorner'' = Some 100 \<and>
   nc_get_att_float sample ''yllcorner'' = None \<and>
   length (mesh_nodes sample_mesh) = 4 \<and>
   node_id (mesh_nodes sample_mesh ! 3) = 3 \<and>
   node_x (mesh_nodes sample_mesh ! 1) = 1 + 100 \<and>
   node_y (mesh_nodes sample_mesh ! 2) = 1 + 0 \<and>
   length (mesh_elements sample_mesh) = 2 \<and>
   mesh_elements sample_mesh ! 1 = \<lparr>elem_id = 1, elem_eType = E3T, elem_p = [0, 2, 3]\<rparr>"
proof -
  have h: "dimension sample ''number_of_points'' = Some 4"
    "dimension sample ''number_of_volumes'' = Some 2"
    "float_variable sample ''x'' = Some [0, 1, 1, 0]"
    "float_variable sample ''y'' = Some [0, 0, 1, 1]"
    "int_variable sample ''volumes'' = Some [0, 1, 2, 0, 2, 3]"
    by (simp_all add: sample_def lookup_eval)
  have a: "nc_get_att_float sample ''xllcorner'' = Some 100"
    "nc_get_att_float sample ''yllcorner'' = None"
    by (simp_all add: sample_def)
  note g = loadSWW_geometry [OF sample_loads h]
  from g have "length (mesh_nodes sample_mesh) = 4"
    and "node_id (mesh_nodes sample_mesh ! 3) = 3"
    and "node_x (mesh_nodes sample_mesh ! 1) = 1 + 100"
    and "node_y (mesh_nodes sample_mesh ! 2) = 1 + 0"
    and "length (mesh_elements sample_mesh) = 2"
    and "mesh_elements sample_mesh ! 1 = \<lparr>elem_id = 1, elem_eType = E3T, elem_p = [0, 2, 3]\<rparr>"
    by (simp_all add: a exact_ops_def)
  with sample_loads a show ?thesis
    by simp
qed

text \<open>
  Claim C8: for every container whose \<^verbatim>\<open>number_of_vertices\<close> is not 3, or which lacks
  \<^verbatim>\<open>stage\<close> or any other required dimension or variable, the loader fails with
  \<^verbatim>\<open>UnknownFormat\<close> and returns no mesh.
\<close>

theorem loadSWW_schema_failure:
  assumes "dimension c ''number_of_vertices'' \<noteq> Some 3 \<or>
           (\<exists>name \<in> set [''number_of_volumes'', ''number_of_points'', ''number_of_timesteps''].
              dimension c name = None) \<or>
           (\<exists>name \<in> set [''x'', ''y'', ''z'', ''volumes'', ''time'', ''stage''].
              nc_inq_varid c name = None)"
  shows "loadSWW ops fileName c = Returned Err_UnknownFormat None"
proof (cases "nc_open c")
  case False
  then show ?thesis by (simp add: loadSWW_def fail_UnknownFormat_def)
next
  case True
  show ?thesis
  proof (cases "get_dimensions c")
    case None
    with True show ?thesis by (simp add: loadSWW_def fail_UnknownFormat_def)
  next
    case (Some d)
    obtain nVolumes nVertices nPoints nTimesteps where d: "d = (nVolumes, nVertices, nPoints, nTimesteps)"
      by (cases d) auto
    from Some d have dims: "dimension c ''number_of_volumes'' = Some nVolumes"
      "dimension c ''number_of_vertices'' = Some nVertices"
      "dimension c ''number_of_points'' = Some nPoints"
      "dimension c ''number_of_timesteps'' = Some nTimesteps"
      by (simp_all add: get_dimensions_Some)
    show ?thesis
    proof (cases "nVertices = 3")
      case False
      with True Some d show ?thesis by (simp add: loadSWW_def fail_UnknownFormat_def)
    next
      case v3: True
      with assms dims have "get_variables c = None"
        by (auto simp: get_variables_None)
      with True Some d v3 show ?thesis by (simp add: loadSWW_def fail_UnknownFormat_def)
    qed
  qed
qed

theorem loadSWW_schema_failure_witness:
  "dimension sample_quads ''number_of_vertices'' = Some 4 \<and>
   loadSWW exact_ops ''a.sww'' sample_quads = Returned Err_UnknownFormat None \<and>
   nc_inq_varid sample_no_stage ''stage'' = None \<and>
   loadSWW exact_ops ''a.sww'' sample_no_stage = Returned Err_UnknownFormat None"
proof -
  have q: "dimension sample_quads ''number_of_vertices'' = Some 4"
    by (simp add: sample_quads_def sample_def lookup_eval)
  have s: "nc_inq_varid sample_no_stage ''stage'' = None"
    by (simp add: sample_no_stage_def sample_def)
  have "loadSWW exact_ops ''a.sww'' sample_quads = Returned Err_UnknownFormat None"
    by (rule loadSWW_schema_failure) (simp add: q)
  moreover have "loadSWW exact_ops ''a.sww'' sample_no_stage = Returned Err_UnknownFormat None"
    by (rule loadSWW_schema_failure) (simp add: s)
  ultimately show ?thesis
    using q s by simp
qed

text \<open>
  Claim C9: for every successfully loaded file, the single output of the bed dataset has
  the time 0.
\<close>

theorem loadSWW_bed_time:
  assumes "loadSWW ops fileName c = Returned st (Some mesh)"
  shows "out_time (ds_outputs (mesh_dataSets mesh ! 0) ! 0) = fzero ops"
  using assms
proof (rule loadSWW_mesh)
  fix nVolumes nPoints zs outs mds
  assume ds: "mesh_dataSets mesh =
           [\<lparr>ds_fileName = fileName, ds_type = Bed, ds_name = ''Bed Elevation'',
              ds_isTimeVarying = False,
              ds_outputs = [\<lparr>out_time = fzero ops,
                              out_values = zs @ replicate (nPoints - length zs) (fzero ops),
                              out_valuesV = [],
                              out_active = replicate nVolumes True\<rparr>]\<rparr>,
            \<lparr>ds_fileName = fileName, ds_type = Scalar, ds_name = ''Depth'',
              ds_isTimeVarying = True, ds_outputs = outs\<rparr>] @ mds"
  show ?thesis
    unfolding ds by simp
qed

theorem loadSWW_bed_time_witness:
  "loadSWW exact_ops ''a.sww'' sample = Returned Err_None (Some sample_mesh) \<and>
   out_time (ds_outputs (mesh_dataSets sample_mesh ! 0) ! 0) = 0"
  using loadSWW_bed_time [OF sample_loads] sample_loads
  by (simp add: exact_ops_def)

text \<open>
  Claim C10, amended: for every container that passes the schema checks, whose mesh arrays
  are read and fit their buffers (with sizes that fit \<^verbatim>\<open>int\<close>), whose
  \<^verbatim>\<open>number_of_timesteps\<close> is 0 and whose \<^verbatim>\<open>time\<close> variable holds no value (or cannot be
  read), the load succeeds with a clear status; the depth dataset, and the momentum
  dataset when both momentum variables are present, have no output and are marked
  time-varying.
\<close>

theorem loadSWW_no_timesteps:
  assumes "nc_open c"
    and "dimension c ''number_of_volumes'' = Some nVolumes"
    and "dimension c ''number_of_vertices'' = Some 3"
    and "dimension c ''number_of_points'' = Some nPoints"
    and "dimension c ''number_of_timesteps'' = Some 0"
    and "float_variable c ''x'' = Some xs" and "length xs \<le> nPoints"
    and "float_variable c ''y'' = Some ys" and "length ys \<le> nPoints"
    and "float_variable c ''z'' = Some zs" and "length zs \<le> nPoints"
    and "int_variable c ''volumes'' = Some pvolumes" and "length pvolumes = 3 * nVolumes"
    and "nc_inq_varid c ''time'' \<noteq> None"
    and "float_variable c ''time'' = None \<or> float_variable c ''time'' = Some []"
    and "nc_inq_varid c ''stage'' \<noteq> None"
    and "nPoints \<le> INT_MAX" and "3 * nVolumes \<le> INT_MAX"
  shows "\<exists>mesh. loadSWW ops fileName c = Returned Err_None (Some mesh) \<and>
           ds_name (mesh_dataSets mesh ! 1) = ''Depth'' \<and>
           ds_isTimeVarying (mesh_dataSets mesh ! 1) \<and>
           ds_outputs (mesh_dataSets mesh ! 1) = [] \<and>
           (nc_inq_varid c ''xmomentum'' \<noteq> None \<and> nc_inq_varid c ''ymomentum'' \<noteq> None \<longrightarrow>
              ds_name (mesh_dataSets mesh ! 2) = ''Momentum'' \<and>
              ds_isTimeVarying (mesh_dataSets mesh ! 2) \<and>
              ds_outputs (mesh_dataSets mesh ! 2) = [])"
proof -
  from assms(6,8,10,12) obtain xid yid zid volumesid where ids:
    "nc_inq_varid c ''x'' = Some xid" "nc_get_var_float c xid = Some xs"
    "nc_inq_varid c ''y'' = Some yid" "nc_get_var_float c yid = Some ys"
    "nc_inq_varid c ''z'' = Some zid" "nc_get_var_float c zid = Some zs"
    "nc_inq_varid c ''volumes'' = Some volumesid" "nc_get_var_int c volumesid = Some pvolumes"
    by (auto simp: float_variable_def int_variable_def split: option.splits)
  from assms(14,16) obtain timeid stageid where ids':
    "nc_inq_varid c ''time'' = Some timeid" "nc_inq_varid c ''stage'' = Some stageid"
    by auto
  from assms(15) ids'(1) have time: "nc_get_var_float c timeid = None \<or> nc_get_var_float c timeid = Some []"
    by (simp add: float_variable_def)
  have dims: "get_dimensions c = Some (nVolumes, 3, nPoints, 0)"
    using assms(2-5) by (simp add: get_dimensions_Some)
  have vars: "get_variables c = Some (xid, yid, zid, volumesid, timeid, stageid)"
    using ids ids' by (simp add: get_variables_Some)
  have run: "loadSWW ops fileName c =
               build_mesh ops fileName c nVolumes nPoints 0 timeid stageid
                 (xs @ replicate (nPoints - length xs) (fzero ops))
                 (ys @ replicate (nPoints - length ys) (fzero ops))
                 (zs @ replicate (nPoints - length zs) (fzero ops)) pvolumes"
    using assms(1,7,9,11,13,17) by (simp add: loadSWW_def dims vars ids read_into_def)
  from build_mesh_no_timesteps [OF assms(18) time] obtain nodes elements bed where
    "build_mesh ops fileName c nVolumes nPoints 0 timeid stageid
                 (xs @ replicate (nPoints - length xs) (fzero ops))
                 (ys @ replicate (nPoints - length ys) (fzero ops))
                 (zs @ replicate (nPoints - length zs) (fzero ops)) pvolumes =
       Returned Err_None
               (Some \<lparr>mesh_nodes = nodes, mesh_elements = elements,
                       mesh_dataSets =
                         [bed, \<lparr>ds_fileName = fileName, ds_type = Scalar, ds_name = ''Depth'',
                                 ds_isTimeVarying = True, ds_outputs = []\<rparr>] @
                         (if nc_inq_varid c ''xmomentum'' \<noteq> None \<and> nc_inq_varid c ''ymomentum'' \<noteq> None
                          then [\<lparr>ds_fileName = fileName, ds_type = Vector, ds_name = ''Momentum'',
                                  ds_isTimeVarying = True, ds_outputs = []\<rparr>]
                          else [])\<rparr>)"
    by blast
  with run show ?thesis
    by simp
qed

theorem loadSWW_no_timesteps_witness:
  "dimension sample_no_steps ''number_of_timesteps'' = Some 0 \<and>
   nc_inq_varid sample_no_steps ''xmomentum'' = Some 6 \<and>
   nc_inq_varid sample_no_steps ''ymomentum'' = Some 7 \<and>
   (\<exists>mesh. loadSWW exact_ops ''a.sww'' sample_no_steps = Returned Err_None (Some mesh) \<and>
      ds_name (mesh_dataSets mesh ! 1) = ''Depth'' \<and>
      ds_isTimeVarying (mesh_dataSets mesh ! 1) \<and>
      ds_outputs (mesh_dataSets mesh ! 1) = [] \<and>
      ds_name (mesh_dataSets mesh ! 2) = ''Momentum'' \<and>
      ds_isTimeVarying (mesh_dataSets mesh ! 2) \<and>
      ds_outputs (mesh_dataSets mesh ! 2) = [])"
proof -
  have h: "nc_open sample_no_steps"
    "dimension sample_no_steps ''number_of_volumes'' = Some 2"
    "dimension sample_no_steps ''number_of_vertices'' = Some 3"
    "dimension sample_no_steps ''number_of_points'' = Some 4"
    "dimension sample_no_steps ''number_of_timesteps'' = Some 0"
    "float_variable sample_no_steps ''x'' = Some [0, 1, 1, 0]" "length [0, 1, 1, 0 :: real] \<le> 4"
    "float_variable sample_no_steps ''y'' = Some [0, 0, 1, 1]" "length [0, 0, 1, 1 :: real] \<le> 4"
    "float_variable sample_no_steps ''z'' = Some [10, 10, 10, 12]" "length [10, 10, 10, 12 :: real] \<le> 4"
    "int_variable sample_no_steps ''volumes'' = Some [0, 1, 2, 0, 2, 3]"
    "length [0, 1, 2, 0, 2, 3 :: 32 word] = 3 * 2"
    "nc_inq_varid sample_no_steps ''time'' \<noteq> None"
    "float_variable sample_no_steps ''time'' = None \<or> float_variable sample_no_steps ''time'' = Some []"
    "nc_inq_varid sample_no_steps ''stage'' \<noteq> None"
    "4 \<le> INT_MAX" "3 * 2 \<le> INT_MAX"
    by (simp_all add: sample_no_steps_def sample_def lookup_eval INT_MAX_def)
  have i: "nc_inq_varid sample_no_steps ''xmomentum'' = Some 6"
    "nc_inq_varid sample_no_steps ''ymomentum'' = Some 7"
    by (simp_all add: sample_no_steps_def sample_def)
  from loadSWW_no_timesteps [OF h, of exact_ops "''a.sww''"] i h(5) show ?thesis
    by simp
qed

text \<open>
  Claim C10 as stated fails: \<open>sample_no_steps_timed\<close> passes the schema checks, its mesh
  arrays are read, and its \<^verbatim>\<open>number_of_timesteps\<close> is 0, but its \<^verbatim>\<open>time\<close> variable holds one
  value. The read of line 169 stores that value into a buffer of no slot: the load does
  not succeed, it overruns the buffer.
\<close>

theorem loadSWW_no_timesteps_counterexample:
  "nc_open sample_no_steps_timed \<and>
   dimension sample_no_steps_timed ''number_of_volumes'' = Some 2 \<and>
   dimension sample_no_steps_timed ''number_of_vertices'' = Some 3 \<and>
   dimension sample_no_steps_timed ''number_of_points'' = Some 4 \<and>
   dimension sample_no_steps_timed ''number_of_timesteps'' = Some 0 \<and>
   get_variables sample_no_steps_timed = Some (0, 1, 2, 3, 4, 5) \<and>
   float_variable sample_no_steps_timed ''x'' = Some [0, 1, 1, 0] \<and>
   float_variable sample_no_steps_timed ''y'' = Some [0, 0, 1, 1] \<and>
   float_variable sample_no_steps_timed ''z'' = Some [10, 10, 10, 12] \<and>
   int_variable sample_no_steps_timed ''volumes'' = Some [0, 1, 2, 0, 2, 3] \<and>
   float_variable sample_no_steps_timed ''time'' = Some [7200] \<and>
   loadSWW exact_ops ''a.sww'' sample_no_steps_timed = Undefined_Behaviour"
  by (simp add: loader_eval lookup_eval sample_def sample_no_steps_def sample_no_steps_timed_def)

end
